theory Spec2Isabelle
  imports Complex_Main
begin

section \<open>Numbers\<close>

text \<open>
  The page \<^verbatim>\<open>src/pages/index.tsx\<close> computes with JavaScript Numbers, which are
  IEEE 754 binary64 values. A value of the type \<open>number\<close> is a finite number, one of
  the two infinities, or NaN. The sign of a zero is not kept: the page never divides by
  a computed value, so no operation below can tell the two zeros apart.
\<close>

datatype number = Finite real | PosInfinity | NegInfinity | NaN

text \<open>The power of two with an integer exponent.\<close>

definition pow2 :: "int \<Rightarrow> real" where
  "pow2 k = (if 0 \<le> k then 2 ^ nat k else 1 / 2 ^ nat (- k))"

text \<open>The number of binary digits of a natural number.\<close>

fun bitlength :: "nat \<Rightarrow> nat" where
  "bitlength n = (if n = 0 then 0 else Suc (bitlength (n div 2)))"

text \<open>
  The binary exponent of a real \<open>x\<close>: the \<open>e\<close> with \<open>2 ^ e \<le> \<bar>x\<bar> < 2 ^ (e + 1)\<close>, and
  \<open>-1022\<close> for the subnormal numbers below \<open>2 ^ -1022\<close>.
\<close>

definition exponent :: "real \<Rightarrow> int" where
  "exponent x =
     (if 1 \<le> \<bar>x\<bar> then int (bitlength (nat \<lfloor>\<bar>x\<bar>\<rfloor>)) - 1
      else max (- 1022) (- int (bitlength (nat (\<lceil>1 / \<bar>x\<bar>\<rceil> - 1)))))"

text \<open>The nearest integer, a tie going to the even one.\<close>

definition round_half_even :: "real \<Rightarrow> int" where
  "round_half_even x =
     (if x - of_int \<lfloor>x\<rfloor> < 1 / 2 then \<lfloor>x\<rfloor>
      else if 1 / 2 < x - of_int \<lfloor>x\<rfloor> then \<lfloor>x\<rfloor> + 1
      else if even \<lfloor>x\<rfloor> then \<lfloor>x\<rfloor> else \<lfloor>x\<rfloor> + 1)"

text \<open>
  The binary64 value nearest to a real, with 53 significant bits, before the test for
  overflow; this is also the value of a decimal literal and of \<^verbatim>\<open>Number("...")\<close>.
\<close>

definition nearest64 :: "real \<Rightarrow> real" where
  "nearest64 x =
     of_int (round_half_even (x / pow2 (exponent x - 52))) * pow2 (exponent x - 52)"

text \<open>Rounding the exact result of an operation: to nearest, overflow to an infinity.\<close>

definition round64 :: "real \<Rightarrow> number" where
  "round64 x =
     (if 2 ^ 1024 \<le> nearest64 x then PosInfinity
      else if nearest64 x \<le> - (2 ^ 1024) then NegInfinity
      else Finite (nearest64 x))"

text \<open>The operators \<^verbatim>\<open>+\<close>, unary \<^verbatim>\<open>-\<close>, binary \<^verbatim>\<open>-\<close>, \<^verbatim>\<open>*\<close> and \<^verbatim>\<open>/\<close>.\<close>

fun add64 :: "number \<Rightarrow> number \<Rightarrow> number" where
  "add64 (Finite a) (Finite b) = round64 (a + b)"
| "add64 NaN b = NaN"
| "add64 a NaN = NaN"
| "add64 PosInfinity NegInfinity = NaN"
| "add64 NegInfinity PosInfinity = NaN"
| "add64 PosInfinity b = PosInfinity"
| "add64 NegInfinity b = NegInfinity"
| "add64 a PosInfinity = PosInfinity"
| "add64 a NegInfinity = NegInfinity"

fun uminus64 :: "number \<Rightarrow> number" where
  "uminus64 (Finite a) = Finite (- a)"
| "uminus64 PosInfinity = NegInfinity"
| "uminus64 NegInfinity = PosInfinity"
| "uminus64 NaN = NaN"

definition sub64 :: "number \<Rightarrow> number \<Rightarrow> number" where
  "sub64 a b = add64 a (uminus64 b)"

fun mul64 :: "number \<Rightarrow> number \<Rightarrow> number" where
  "mul64 (Finite a) (Finite b) = round64 (a * b)"
| "mul64 NaN b = NaN"
| "mul64 a NaN = NaN"
| "mul64 (Finite a) PosInfinity =
     (if a = 0 then NaN else if 0 < a then PosInfinity else NegInfinity)"
| "mul64 (Finite a) NegInfinity =
     (if a = 0 then NaN else if 0 < a then NegInfinity else PosInfinity)"
| "mul64 PosInfinity (Finite b) =
     (if b = 0 then NaN else if 0 < b then PosInfinity else NegInfinity)"
| "mul64 NegInfinity (Finite b) =
     (if b = 0 then NaN else if 0 < b then NegInfinity else PosInfinity)"
| "mul64 PosInfinity PosInfinity = PosInfinity"
| "mul64 PosInfinity NegInfinity = NegInfinity"
| "mul64 NegInfinity PosInfinity = NegInfinity"
| "mul64 NegInfinity NegInfinity = PosInfinity"

text \<open>A zero divisor is the positive zero: the only divisor of the page is a slider's value.\<close>

fun div64 :: "number \<Rightarrow> number \<Rightarrow> number" where
  "div64 (Finite a) (Finite b) =
     (if b \<noteq> 0 then round64 (a / b)
      else if 0 < a then PosInfinity
      else if a < 0 then NegInfinity
      else NaN)"
| "div64 NaN b = NaN"
| "div64 a NaN = NaN"
| "div64 (Finite a) PosInfinity = Finite 0"
| "div64 (Finite a) NegInfinity = Finite 0"
| "div64 PosInfinity (Finite b) = (if 0 \<le> b then PosInfinity else NegInfinity)"
| "div64 NegInfinity (Finite b) = (if 0 \<le> b then NegInfinity else PosInfinity)"
| "div64 a b = NaN"

text \<open>The comparisons \<^verbatim>\<open><=\<close> and \<^verbatim>\<open><\<close>: false as soon as one side is NaN.\<close>

fun le64 :: "number \<Rightarrow> number \<Rightarrow> bool" where
  "le64 (Finite a) (Finite b) = (a \<le> b)"
| "le64 NaN b = False"
| "le64 a NaN = False"
| "le64 NegInfinity b = True"
| "le64 a PosInfinity = True"
| "le64 a b = False"

fun less64 :: "number \<Rightarrow> number \<Rightarrow> bool" where
  "less64 (Finite a) (Finite b) = (a < b)"
| "less64 NaN b = False"
| "less64 a NaN = False"
| "less64 PosInfinity b = False"
| "less64 a NegInfinity = False"
| "less64 a b = True"

text \<open>
  \<^verbatim>\<open>Math.max(...xs)\<close>: NaN as soon as one argument is NaN, \<open>-Infinity\<close> when there is no
  argument.
\<close>

definition max64 :: "number \<Rightarrow> number \<Rightarrow> number" where
  "max64 a b = (if a = NaN \<or> b = NaN then NaN else if le64 a b then b else a)"

definition Math_max :: "number list \<Rightarrow> number" where
  "Math_max xs = fold max64 xs NegInfinity"

text \<open>
  \<^verbatim>\<open>Math.round(x)\<close>: the integer nearest to \<open>x\<close>, a tie going up; \<^verbatim>\<open>Math.floor(x)\<close>.
  Both leave the infinities and NaN as they are, and both are exact on a binary64 value.
\<close>

fun Math_round :: "number \<Rightarrow> number" where
  "Math_round (Finite x) = Finite (of_int \<lfloor>x + 1 / 2\<rfloor>)"
| "Math_round PosInfinity = PosInfinity"
| "Math_round NegInfinity = NegInfinity"
| "Math_round NaN = NaN"

fun Math_floor :: "number \<Rightarrow> number" where
  "Math_floor (Finite x) = Finite (of_int \<lfloor>x\<rfloor>)"
| "Math_floor PosInfinity = PosInfinity"
| "Math_floor NegInfinity = NegInfinity"
| "Math_floor NaN = NaN"

section \<open>The state of the component\<close>

text \<open>
  The interfaces \<^verbatim>\<open>DataPoint\<close>, \<^verbatim>\<open>AgeGroup\<close> and \<^verbatim>\<open>PopulationByAge\<close>. The fields
  of a data point carry the prefix \<open>dp_\<close>, since \<open>time\<close> and \<open>population\<close> are also
  state variables of the component.

  A field is a \<open>number\<close> where the page computes its value, and a real where the value is
  always a finite binary64 value: a literal, or what a slider delivers. The time is the
  count of the ticks; adding \<open>1\<close> to it is exact below \<open>2 ^ 53\<close>, far beyond the number of
  points an array can hold.
\<close>

record DataPoint =
  dp_time :: real
  dp_population :: number
  dp_delta :: number

record AgeGroup =
  minAge :: real
  maxAge :: real
  fertilityRate :: real
  mortalityRate :: real
  color :: string

record PopulationByAge =
  age :: real
  count :: number

text \<open>One field for each \<^verbatim>\<open>useState\<close> of \<^verbatim>\<open>Home\<close>, under its own name.\<close>

record Home =
  startingPopulation :: real
  replicationChance :: real
  deathChance :: real
  crowdingCoefficient :: real
  population :: number
  time :: real
  data :: "DataPoint list"
  isRunning :: bool
  ageGroups :: "AgeGroup list"
  populationByAge :: "PopulationByAge list"
  showResetWarning :: bool

text \<open>The values the \<^verbatim>\<open>useState\<close> calls give on the first render.\<close>

definition initialState :: Home where
  "initialState =
     \<lparr>startingPopulation = 100,
      replicationChance = nearest64 (1 / 10),
      deathChance = nearest64 (5 / 100),
      crowdingCoefficient = nearest64 (1 / 1000),
      population = Finite 100,
      time = 0,
      data = [\<lparr>dp_time = 0, dp_population = Finite 100, dp_delta = Finite 0\<rparr>],
      isRunning = False,
      ageGroups =
        [\<lparr>minAge = 0, maxAge = 5, fertilityRate = 0,
          mortalityRate = nearest64 (8 / 100), color = ''#4CAF50''\<rparr>,
         \<lparr>minAge = 6, maxAge = 15, fertilityRate = nearest64 (2 / 10),
          mortalityRate = nearest64 (5 / 100), color = ''#2196F3''\<rparr>,
         \<lparr>minAge = 16, maxAge = 25, fertilityRate = nearest64 (15 / 100),
          mortalityRate = nearest64 (6 / 100), color = ''#9C27B0''\<rparr>,
         \<lparr>minAge = 26, maxAge = 40, fertilityRate = nearest64 (5 / 100),
          mortalityRate = nearest64 (1 / 10), color = ''#FF9800''\<rparr>],
      populationByAge = [],
      showResetWarning = False\<rparr>"

section \<open>The operations\<close>

text \<open>
  \<^verbatim>\<open>initializeAgeDistribution\<close>: one entry for each age \<open>0, 1, ..., maxAge\<close>, each with
  the count \<^verbatim>\<open>Math.floor(startingPopulation / (maxAge + 1))\<close>. The loop does not run
  when \<^verbatim>\<open>Math.max\<close> is \<open>-Infinity\<close>. The page never calls \<^verbatim>\<open>setAgeGroups\<close>, so
  the largest age stays \<open>40\<close>.
\<close>

definition initializeAgeDistribution :: "Home \<Rightarrow> Home" where
  "initializeAgeDistribution s =
     (case Math_max (map (\<lambda>g. Finite (maxAge g)) (ageGroups s)) of
        Finite m \<Rightarrow>
          s\<lparr>populationByAge :=
              map (\<lambda>a. \<lparr>age = of_int a,
                         count = Math_floor (div64 (Finite (startingPopulation s))
                                   (add64 (Finite m) (Finite 1)))\<rparr>)
                [0..\<lfloor>m\<rfloor>]\<rparr>
      | _ \<Rightarrow> s\<lparr>populationByAge := []\<rparr>)"

text \<open>\<^verbatim>\<open>resetSimulation\<close>: pause, reseed population, time and data, reseed the ages.\<close>

definition resetSimulation :: "Home \<Rightarrow> Home" where
  "resetSimulation s =
     initializeAgeDistribution
       (s\<lparr>isRunning := False,
          population := Finite (startingPopulation s),
          time := 0,
          data := [\<lparr>dp_time = 0, dp_population = Finite (startingPopulation s),
                    dp_delta = Finite 0\<rparr>]\<rparr>)"

text \<open>
  The callback of \<^verbatim>\<open>setInterval\<close> in the effect that runs the simulation. The effect
  returns before it sets the interval when \<^verbatim>\<open>isRunning\<close> is false, so a tick in a
  paused state changes nothing.
\<close>

definition advanceTick :: "Home \<Rightarrow> Home" where
  "advanceTick s =
     (if \<not> isRunning s then s
      else
        let growthRate =
              sub64 (sub64 (Finite (replicationChance s)) (Finite (deathChance s)))
                (mul64 (Finite (crowdingCoefficient s)) (population s));
            populationChange = mul64 growthRate (population s);
            newPopulation =
              Math_max [Finite 0, Math_round (add64 (population s) populationChange)];
            newTime = time s + 1;
            delta = sub64 newPopulation (population s);
            s' = s\<lparr>population := newPopulation,
                   time := newTime,
                   data := data s @
                     [\<lparr>dp_time = newTime, dp_population = newPopulation, dp_delta = delta\<rparr>]\<rparr>
        in if le64 newPopulation (Finite 0) then s'\<lparr>isRunning := False\<rparr> else s')"

text \<open>\<^verbatim>\<open>calculateCarryingCapacity\<close>.\<close>

definition calculateCarryingCapacity :: "Home \<Rightarrow> number" where
  "calculateCarryingCapacity s =
     (if replicationChance s \<le> deathChance s then Finite 0
      else Math_round
             (div64 (sub64 (Finite (replicationChance s)) (Finite (deathChance s)))
                (Finite (crowdingCoefficient s))))"

text \<open>
  \<^verbatim>\<open>handleResetClick\<close>: while the simulation runs, the click raises the warning and
  resets nothing. The timeout it starts hides the warning three seconds later.
\<close>

definition handleResetClick :: "Home \<Rightarrow> Home" where
  "handleResetClick s =
     (if isRunning s then s\<lparr>showResetWarning := True\<rparr> else resetSimulation s)"

definition hideResetWarning :: "Home \<Rightarrow> Home" where
  "hideResetWarning s = s\<lparr>showResetWarning := False\<rparr>"

definition setIsRunning :: "bool \<Rightarrow> Home \<Rightarrow> Home" where
  "setIsRunning b s = s\<lparr>isRunning := b\<rparr>"

text \<open>
  \<^verbatim>\<open>setStartingPopulation\<close> together with the effect that depends on
  \<^verbatim>\<open>startingPopulation\<close>: a new value resets the simulation, the old value again
  renders nothing anew.
\<close>

definition setStartingPopulation :: "real \<Rightarrow> Home \<Rightarrow> Home" where
  "setStartingPopulation v s =
     (if v = startingPopulation s then s
      else resetSimulation (s\<lparr>startingPopulation := v\<rparr>))"

section \<open>The events of the page\<close>

text \<open>
  A value that an \<^verbatim>\<open><input type="range">\<close> with the attributes \<open>min\<close>, \<open>max\<close> and
  \<open>step\<close> can deliver, as the decimal number its string denotes.
\<close>

definition rangeInput :: "real \<Rightarrow> real \<Rightarrow> real \<Rightarrow> real \<Rightarrow> bool" where
  "rangeInput mn mx st v =
     (mn \<le> v \<and> v \<le> mx \<and> of_int \<lfloor>(v - mn) / st\<rfloor> = (v - mn) / st)"

datatype event =
    StartingPopulationChange real
  | ReplicationChanceChange real
  | DeathChanceChange real
  | CrowdingCoefficientChange real
  | StartPauseClick
  | ResetClick
  | IntervalTick
  | WarningTimeout

text \<open>
  What each event does to the state. The slider of the starting population is disabled
  while the simulation runs; a slider delivers only values of its range, and the handler
  stores \<^verbatim>\<open>Number(e.target.value)\<close>, the binary64 value nearest to the decimal.
\<close>

fun handle :: "event \<Rightarrow> Home \<Rightarrow> Home" where
  "handle (StartingPopulationChange v) s =
     (if isRunning s \<or> \<not> rangeInput 10 1000 10 v then s
      else setStartingPopulation (nearest64 v) s)"
| "handle (ReplicationChanceChange v) s =
     (if rangeInput 0 (5 / 10) (1 / 1000) v then s\<lparr>replicationChance := nearest64 v\<rparr> else s)"
| "handle (DeathChanceChange v) s =
     (if rangeInput 0 (5 / 10) (1 / 1000) v then s\<lparr>deathChance := nearest64 v\<rparr> else s)"
| "handle (CrowdingCoefficientChange v) s =
     (if rangeInput 0 (1 / 100) (1 / 10000) v then s\<lparr>crowdingCoefficient := nearest64 v\<rparr>
      else s)"
| "handle StartPauseClick s = setIsRunning (\<not> isRunning s) s"
| "handle ResetClick s = handleResetClick s"
| "handle IntervalTick s = advanceTick s"
| "handle WarningTimeout s = hideResetWarning s"

text \<open>
  The state after the first render and its effects: the effect on
  \<^verbatim>\<open>startingPopulation\<close> runs \<^verbatim>\<open>resetSimulation\<close> once at mount.
\<close>

definition mounted :: Home where
  "mounted = resetSimulation initialState"

text \<open>The state after a sequence of events, the first event first.\<close>

definition run :: "event list \<Rightarrow> Home \<Rightarrow> Home" where
  "run evs s = fold handle evs s"

section \<open>The invariant of the simulation state\<close>

text \<open>
  What every operation keeps: the data have a first point, the point at index \<open>i\<close> has
  the time \<open>i\<close>, the clock is the index of the last point, no population is less than
  \<open>0\<close>, and the first point has the delta \<open>0\<close>.
\<close>

definition consistent :: "Home \<Rightarrow> bool" where
  "consistent s =
     (data s \<noteq> [] \<and>
      map dp_time (data s) = map real [0..<length (data s)] \<and>
      time s + 1 = real (length (data s)) \<and>
      \<not> less64 (population s) (Finite 0) \<and>
      list_all (\<lambda>p. \<not> less64 (dp_population p) (Finite 0)) (data s) \<and>
      dp_delta (hd (data s)) = Finite 0 \<and>
      0 \<le> startingPopulation s)"

text \<open>The events that reseed the population: the two ways into \<^verbatim>\<open>resetSimulation\<close>.\<close>

fun isReset :: "event \<Rightarrow> bool" where
  "isReset (StartingPopulationChange v) = True"
| "isReset ResetClick = True"
| "isReset e = False"

text \<open>Rates that a subtraction cannot take to an infinity; every slider value is one.\<close>

definition moderateRates :: "Home \<Rightarrow> bool" where
  "moderateRates s =
     (\<bar>replicationChance s\<bar> \<le> pow2 1022 \<and> \<bar>deathChance s\<bar> \<le> pow2 1022)"

section \<open>Scenarios\<close>

text \<open>
  Scenario A: the page as it mounts, started. Scenario C: starting population \<open>50\<close>,
  replication chance \<open>0.01\<close>, death chance \<open>0.1\<close>, the crowding coefficient left at
  \<open>0.001\<close>, started. Then a run that dies out in four ticks and the same run one
  tick away from extinction, a state where
  the rounding of the arithmetic decides the tick, a state whose tick is clamped at
  \<open>0\<close>, the three settings of the rates used for the carrying capacity, and the setting
  with which the population grows by half at every tick.
\<close>

definition scenarioA :: Home where
  "scenarioA = run [StartPauseClick] mounted"

definition scenarioC :: Home where
  "scenarioC =
     run [StartingPopulationChange 50, ReplicationChanceChange (1 / 100),
          DeathChanceChange (1 / 10), StartPauseClick] mounted"

definition extinctionStart :: Home where
  "extinctionStart =
     run [StartingPopulationChange 10, ReplicationChanceChange 0, DeathChanceChange (1 / 2),
          CrowdingCoefficientChange (1 / 100), StartPauseClick] mounted"

definition nearExtinction :: Home where
  "nearExtinction =
     run [StartingPopulationChange 10, ReplicationChanceChange 0, DeathChanceChange (1 / 2),
          CrowdingCoefficientChange (1 / 100), StartPauseClick,
          IntervalTick, IntervalTick, IntervalTick] mounted"

definition roundingDecides :: Home where
  "roundingDecides =
     run [ReplicationChanceChange 0, DeathChanceChange (325 / 1000), StartPauseClick] mounted"

definition clamped :: Home where
  "clamped =
     run [StartingPopulationChange 1000, ReplicationChanceChange 0, DeathChanceChange (1 / 2),
          CrowdingCoefficientChange (1 / 100), StartPauseClick] mounted"

definition capacityRounded :: Home where
  "capacityRounded =
     run [ReplicationChanceChange (51 / 1000), DeathChanceChange (5 / 100),
          CrowdingCoefficientChange (4 / 10000)] mounted"

definition noCrowding :: Home where
  "noCrowding = run [CrowdingCoefficientChange 0] mounted"

definition overflowing :: Home where
  "overflowing =
     run [StartingPopulationChange 1000, ReplicationChanceChange (1 / 2), DeathChanceChange 0,
          CrowdingCoefficientChange 0, StartPauseClick] mounted"


text \<open>
  The running states of scenario C, by their population, and the populations it goes
  through.
\<close>

definition declining :: "real \<Rightarrow> Home \<Rightarrow> bool" where
  "declining P s =
     (isRunning s \<and> replicationChance s = nearest64 (1 / 100)
      \<and> deathChance s = nearest64 (1 / 10)
      \<and> crowdingCoefficient s = nearest64 (1 / 1000)
      \<and> population s = Finite P)"

definition declineValues :: "real list" where
  "declineValues = [50, 43, 37, 32, 28, 25, 22, 20, 18, 16, 14, 13, 12, 11, 10, 9, 8, 7, 6, 5]"

text \<open>The running states of the last scenario: no death, no crowding, half replicates.\<close>

definition growing :: "Home \<Rightarrow> bool" where
  "growing s =
     (isRunning s \<and> replicationChance s = 1 / 2 \<and> deathChance s = 0
      \<and> crowdingCoefficient s = 0)"

text \<open>Rates far outside the sliders' ranges, at population \<open>0\<close>.\<close>

definition hugeRates :: Home where
  "hugeRates =
     scenarioA\<lparr>replicationChance := 2 ^ 1023, deathChance := - (2 ^ 1023),
                population := Finite 0\<rparr>"

section \<open>Facts about binary64 rounding\<close>

declare bitlength.simps [simp del]

lemma pow2_pos [simp]: "0 < pow2 k"
  by (simp add: pow2_def)

lemma pow2_power_int: "pow2 k = 2 powi k"
  by (simp add: pow2_def power_int_def inverse_eq_divide power_one_over)

lemma pow2_add: "pow2 (j + k) = pow2 j * pow2 k"
  by (simp add: pow2_power_int power_int_add)

lemma pow2_mono: "j \<le> k \<Longrightarrow> pow2 j \<le> pow2 k"
  by (simp add: pow2_power_int power_int_increasing)

lemma pow2_less: "j < k \<Longrightarrow> pow2 j < pow2 k"
  by (simp add: pow2_power_int power_int_strict_increasing)

lemma pow2_0 [simp]: "pow2 0 = 1"
  by (simp add: pow2_def)

lemma pow2_nat: "pow2 (int n) = 2 ^ n"
  by (simp add: pow2_def)

lemma bitlength_bounds: "0 < n \<Longrightarrow> 2 ^ (bitlength n - 1) \<le> n \<and> n < 2 ^ bitlength n"
proof (induction n rule: bitlength.induct)
  case (1 n)
  show ?case
  proof (cases "n div 2 = 0")
    case True
    with "1.prems" have "n = Suc 0" by (simp add: div_eq_0_iff)
    moreover have "bitlength (Suc 0) = Suc 0"
      by (simp add: bitlength.simps [of "Suc 0"] bitlength.simps [of 0])
    ultimately show ?thesis by simp
  next
    case False
    with "1.IH" "1.prems" have ih: "2 ^ (bitlength (n div 2) - 1) \<le> n div 2"
      "n div 2 < 2 ^ bitlength (n div 2)" by simp_all
    from False obtain j where j: "bitlength (n div 2) = Suc j"
      by (simp add: bitlength.simps [of "n div 2"])
    have b: "bitlength n = Suc (Suc j)"
      using "1.prems" j by (simp add: bitlength.simps [of n])
    from ih(1) j have "2 * 2 ^ j \<le> 2 * (n div 2)" by simp
    also have "\<dots> \<le> n" by simp
    finally have lo: "2 ^ (bitlength n - 1) \<le> n" using b by simp
    have "n < 2 * (n div 2) + 2" by presburger
    moreover from ih(2) j have "2 * (n div 2) + 2 \<le> 2 * 2 ^ Suc j" by simp
    ultimately have "n < 2 ^ bitlength n" using b by simp
    with lo show ?thesis by simp
  qed
qed

text \<open>The exponent brackets every number other than \<open>0\<close>.\<close>

lemma exponent_ge: "- 1022 \<le> exponent x"
  by (simp add: exponent_def)

lemma exponent_upper:
  assumes "x \<noteq> 0"
  shows "\<bar>x\<bar> < pow2 (exponent x + 1)"
proof (cases "1 \<le> \<bar>x\<bar>")
  case True
  define n where "n = nat \<lfloor>\<bar>x\<bar>\<rfloor>"
  from True have n: "0 < n" by (simp add: n_def)
  have e: "exponent x + 1 = int (bitlength n)"
    using True by (simp add: exponent_def n_def)
  from bitlength_bounds [OF n] have "Suc n \<le> 2 ^ bitlength n" by simp
  then have "real (Suc n) \<le> real (2 ^ bitlength n)" by (rule of_nat_mono)
  moreover have "\<bar>x\<bar> < real (Suc n)" unfolding n_def by linarith
  ultimately have "\<bar>x\<bar> < 2 ^ bitlength n" by simp
  then show ?thesis unfolding e by (simp add: pow2_nat)
next
  case False
  define a where "a = \<bar>x\<bar>"
  from False assms have a: "0 < a" "a < 1" by (simp_all add: a_def)
  define m where "m = nat (\<lceil>1 / a\<rceil> - 1)"
  define k where "k = bitlength m"
  from a have "1 < 1 / a" by simp
  then have "2 \<le> \<lceil>1 / a\<rceil>" by linarith
  then have m: "0 < m" by (simp add: m_def)
  have "real m < 1 / a" unfolding m_def using \<open>2 \<le> \<lceil>1 / a\<rceil>\<close> by linarith
  moreover have "(2::real) ^ (k - 1) \<le> real m"
  proof -
    from bitlength_bounds [OF m] have "2 ^ (k - 1) \<le> m" by (simp add: k_def)
    then have "real (2 ^ (k - 1)) \<le> real m" by (rule of_nat_mono)
    then show ?thesis by simp
  qed
  ultimately have "2 ^ (k - 1) < 1 / a" by linarith
  with a have "a * 2 ^ (k - 1) < 1" by (simp add: field_simps)
  then have lt: "a < 1 / 2 ^ (k - 1)" by (simp add: field_simps)
  from m have kpos: "0 < k" unfolding k_def by (simp add: bitlength.simps [of m])
  have "1 / 2 ^ (k - 1) = pow2 (1 - int k)"
    using kpos by (simp add: pow2_def nat_diff_distrib)
  also have "\<dots> \<le> pow2 (exponent x + 1)"
  proof (rule pow2_mono)
    have "exponent x = max (- 1022) (- int k)"
      using False by (simp add: exponent_def k_def m_def a_def)
    then show "1 - int k \<le> exponent x + 1" by simp
  qed
  finally show ?thesis using lt by (simp add: a_def)
qed

lemma exponent_lower:
  assumes "x \<noteq> 0" and "- 1022 < exponent x"
  shows "pow2 (exponent x) \<le> \<bar>x\<bar>"
proof (cases "1 \<le> \<bar>x\<bar>")
  case True
  define n where "n = nat \<lfloor>\<bar>x\<bar>\<rfloor>"
  from True have n: "0 < n" by (simp add: n_def)
  then have bpos: "0 < bitlength n" by (simp add: bitlength.simps [of n])
  have e: "exponent x = int (bitlength n - 1)"
    using True bpos by (simp add: exponent_def n_def)
  have "(2::real) ^ (bitlength n - 1) \<le> real n"
  proof -
    from bitlength_bounds [OF n] have "2 ^ (bitlength n - 1) \<le> n" by simp
    then have "real (2 ^ (bitlength n - 1)) \<le> real n" by (rule of_nat_mono)
    then show ?thesis by simp
  qed
  moreover have "real n \<le> \<bar>x\<bar>" unfolding n_def by linarith
  ultimately have "(2::real) ^ (bitlength n - 1) \<le> \<bar>x\<bar>" by linarith
  then show ?thesis unfolding e by (simp add: pow2_nat)
next
  case False
  define a where "a = \<bar>x\<bar>"
  from False assms have a: "0 < a" "a < 1" by (simp_all add: a_def)
  define m where "m = nat (\<lceil>1 / a\<rceil> - 1)"
  define k where "k = bitlength m"
  have ex: "exponent x = max (- 1022) (- int k)"
    using False by (simp add: exponent_def k_def m_def a_def)
  with assms(2) have e: "exponent x = - int k" by simp
  from a have "1 < 1 / a" by simp
  then have "2 \<le> \<lceil>1 / a\<rceil>" by linarith
  then have m: "0 < m" by (simp add: m_def)
  from bitlength_bounds [OF m] have "Suc m \<le> 2 ^ k" by (simp add: k_def)
  then have "real (Suc m) \<le> real (2 ^ k)" by (rule of_nat_mono)
  moreover have "1 / a \<le> real (Suc m)" unfolding m_def using \<open>2 \<le> \<lceil>1 / a\<rceil>\<close> by linarith
  ultimately have "1 / a \<le> 2 ^ k" by simp
  with a have "1 \<le> a * 2 ^ k" by (simp add: field_simps)
  then have "1 / 2 ^ k \<le> a" by (simp add: field_simps)
  moreover have "pow2 (- int k) = 1 / 2 ^ k" by (simp add: pow2_def)
  ultimately show ?thesis unfolding e a_def by simp
qed

lemma exponent_minus [simp]: "exponent (- x) = exponent x"
  by (simp add: exponent_def)

lemma rhe_close: "\<bar>of_int (round_half_even t) - t\<bar> \<le> 1 / 2"
  unfolding round_half_even_def by (simp; linarith)

lemma rhe_ge: "of_int n \<le> t \<Longrightarrow> n \<le> round_half_even t"
proof -
  assume "of_int n \<le> t"
  then have "n \<le> \<lfloor>t\<rfloor>" by (simp add: le_floor_iff)
  then show ?thesis unfolding round_half_even_def by simp
qed

lemma rhe_of_int [simp]: "round_half_even (of_int n) = n"
  by (simp add: round_half_even_def)

lemma rhe_le: "t \<le> of_int n \<Longrightarrow> round_half_even t \<le> n"
proof (cases "t = of_int n")
  case True
  then show ?thesis by simp
next
  case False
  assume "t \<le> of_int n"
  with False have "t < of_int n" by simp
  then have "\<lfloor>t\<rfloor> < n" by (simp add: floor_less_iff)
  then show ?thesis unfolding round_half_even_def by simp
qed

lemma rhe_minus: "round_half_even (- t) = - round_half_even t"
proof (cases "t = of_int \<lfloor>t\<rfloor>")
  case True
  then obtain n where "t = of_int n" ..
  then have "- t = of_int (- n)" by simp
  then show ?thesis unfolding \<open>t = of_int n\<close> by (simp only: rhe_of_int)
next
  case False
  from False have lt: "of_int \<lfloor>t\<rfloor> < t" by (auto simp add: less_le)
  have f: "\<lfloor>- t\<rfloor> = - \<lfloor>t\<rfloor> - 1"
  proof (rule floor_unique)
    show "of_int (- \<lfloor>t\<rfloor> - 1) \<le> - t" by simp linarith
    show "- t < of_int (- \<lfloor>t\<rfloor> - 1) + 1" using lt by simp
  qed
  show ?thesis
    unfolding round_half_even_def f by (simp; linarith?)
qed


lemma pow2_nonneg [simp]: "0 \<le> pow2 k"
  using pow2_pos [of k] by linarith

lemma pow2_neq0 [simp]: "pow2 k \<noteq> 0"
  using pow2_pos [of k] by linarith

lemma rhe_0 [simp]: "round_half_even 0 = 0"
  using rhe_of_int [of 0] by simp

lemma nearest64_minus: "nearest64 (- x) = - nearest64 x"
  by (simp add: nearest64_def rhe_minus)

lemma nearest64_0 [simp]: "nearest64 0 = 0"
  by (simp add: nearest64_def)

lemma nearest64_error: "\<bar>nearest64 x - x\<bar> \<le> pow2 (exponent x - 53)"
proof -
  define q where "q = pow2 (exponent x - 52)"
  have q: "0 < q" by (simp add: q_def)
  have h: "pow2 (exponent x - 53) = q / 2"
    using pow2_add [of "exponent x - 53" 1] by (simp add: q_def pow2_def [of 1])
  have "nearest64 x - x = (of_int (round_half_even (x / q)) - x / q) * q"
    using q by (simp add: nearest64_def q_def field_simps)
  then have "\<bar>nearest64 x - x\<bar> = \<bar>of_int (round_half_even (x / q)) - x / q\<bar> * q"
    using q by (simp add: abs_mult)
  also have "\<dots> \<le> 1 / 2 * q"
    using q rhe_close [of "x / q"] by (intro mult_right_mono) simp_all
  finally show ?thesis by (simp add: h)
qed

lemma nearest64_lower:
  assumes "pow2 k \<le> x" and "- 1074 \<le> k"
  shows "pow2 k \<le> nearest64 x"
proof -
  define e where "e = exponent x"
  define q where "q = pow2 (e - 52)"
  have q: "0 < q" by (simp add: q_def)
  from assms(1) have xpos: "0 < x" using pow2_pos [of k] by linarith
  then have nz: "x \<noteq> 0" by simp
  have eg: "- 1022 \<le> e" by (simp add: e_def exponent_ge)
  have n: "nearest64 x = of_int (round_half_even (x / q)) * q"
    by (simp add: nearest64_def q_def e_def)
  show ?thesis
  proof (cases "e - 52 \<le> k")
    case True
    then have "pow2 k = pow2 (k - (e - 52)) * q"
      using pow2_add [of "k - (e - 52)" "e - 52"] by (simp add: q_def)
    moreover have "pow2 (k - (e - 52)) = of_int (2 ^ nat (k - (e - 52)))"
      using True by (simp add: pow2_def)
    ultimately have pk: "pow2 k = of_int (2 ^ nat (k - (e - 52))) * q" by simp
    with assms(1) q have "of_int (2 ^ nat (k - (e - 52))) \<le> x / q"
      by (simp add: pos_le_divide_eq)
    then have "2 ^ nat (k - (e - 52)) \<le> round_half_even (x / q)" by (rule rhe_ge)
    then have "(of_int (2 ^ nat (k - (e - 52))) :: real) \<le> of_int (round_half_even (x / q))"
      by (simp only: of_int_le_iff)
    with q have "of_int (2 ^ nat (k - (e - 52))) * q \<le> of_int (round_half_even (x / q)) * q"
      by (intro mult_right_mono) simp_all
    with pk n show ?thesis by simp
  next
    case False
    with assms(2) have "- 1022 < e" by simp
    from exponent_lower [OF nz] this have le: "pow2 e \<le> x"
      using xpos by (simp add: e_def)
    have "pow2 e = pow2 52 * q"
      using pow2_add [of 52 "e - 52"] by (simp add: q_def)
    moreover have "pow2 52 = of_int (2 ^ 52)" by (simp add: pow2_def)
    ultimately have pe: "pow2 e = of_int (2 ^ 52) * q" by simp
    with le q have "of_int (2 ^ 52) \<le> x / q" by (simp add: pos_le_divide_eq)
    then have "2 ^ 52 \<le> round_half_even (x / q)" by (rule rhe_ge)
    then have "(of_int (2 ^ 52) :: real) \<le> of_int (round_half_even (x / q))"
      by (simp only: of_int_le_iff)
    with q have "of_int (2 ^ 52) * q \<le> of_int (round_half_even (x / q)) * q"
      by (intro mult_right_mono) simp_all
    with pe n have "pow2 e \<le> nearest64 x" by simp
    moreover from False have "pow2 k \<le> pow2 e" by (intro pow2_mono) simp
    ultimately show ?thesis by simp
  qed
qed

lemma nearest64_upper:
  assumes "x \<le> pow2 k" and "- 1074 \<le> k"
  shows "nearest64 x \<le> pow2 k"
proof -
  define e where "e = exponent x"
  define q where "q = pow2 (e - 52)"
  have q: "0 < q" by (simp add: q_def)
  have eg: "- 1022 \<le> e" by (simp add: e_def exponent_ge)
  have n: "nearest64 x = of_int (round_half_even (x / q)) * q"
    by (simp add: nearest64_def q_def e_def)
  show ?thesis
  proof (cases "e - 52 \<le> k")
    case True
    then have "pow2 k = pow2 (k - (e - 52)) * q"
      using pow2_add [of "k - (e - 52)" "e - 52"] by (simp add: q_def)
    moreover have "pow2 (k - (e - 52)) = of_int (2 ^ nat (k - (e - 52)))"
      using True by (simp add: pow2_def)
    ultimately have pk: "pow2 k = of_int (2 ^ nat (k - (e - 52))) * q" by simp
    with assms(1) q have "x / q \<le> of_int (2 ^ nat (k - (e - 52)))"
      by (simp add: pos_divide_le_eq)
    then have "round_half_even (x / q) \<le> 2 ^ nat (k - (e - 52))" by (rule rhe_le)
    then have "(of_int (round_half_even (x / q)) :: real) \<le> of_int (2 ^ nat (k - (e - 52)))"
      by (simp only: of_int_le_iff)
    with q have "of_int (round_half_even (x / q)) * q \<le> of_int (2 ^ nat (k - (e - 52))) * q"
      by (intro mult_right_mono) simp_all
    with pk n show ?thesis by simp
  next
    case False
    with assms(2) have m: "- 1022 < e" and ke: "k < e" by simp_all
    show ?thesis
    proof (cases "x \<le> 0")
      case True
      with q have "x / q \<le> of_int 0" by (simp add: divide_le_0_iff)
      then have "round_half_even (x / q) \<le> 0" by (rule rhe_le)
      then have "(of_int (round_half_even (x / q)) :: real) \<le> 0" by simp
      with q have "of_int (round_half_even (x / q)) * q \<le> 0"
        by (simp add: mult_le_0_iff)
      with n show ?thesis using pow2_pos [of k] by linarith
    next
      case False
      then have nz: "x \<noteq> 0" and xp: "0 < x" by simp_all
      from exponent_lower [OF nz] m have "pow2 e \<le> x" using xp by (simp add: e_def)
      with assms(1) have "pow2 e \<le> pow2 k" by simp
      moreover from ke have "pow2 k < pow2 e" by (rule pow2_less)
      ultimately show ?thesis by simp
    qed
  qed
qed

lemma nearest64_abs_upper:
  assumes "\<bar>x\<bar> \<le> pow2 k" and "- 1074 \<le> k"
  shows "\<bar>nearest64 x\<bar> \<le> pow2 k"
proof -
  from assms have "nearest64 x \<le> pow2 k" by (intro nearest64_upper) simp_all
  moreover from assms have "nearest64 (- x) \<le> pow2 k" by (intro nearest64_upper) simp_all
  ultimately show ?thesis by (simp add: nearest64_minus abs_le_iff)
qed

lemma nearest64_nonneg: "0 \<le> x \<Longrightarrow> 0 \<le> nearest64 x"
proof -
  assume "0 \<le> x"
  then have "of_int 0 \<le> x / pow2 (exponent x - 52)" by simp
  then have "0 \<le> round_half_even (x / pow2 (exponent x - 52))" by (rule rhe_ge)
  then show ?thesis by (simp add: nearest64_def)
qed

lemma nearest64_relative:
  assumes "1 \<le> x"
  shows "99 / 100 * x \<le> nearest64 x"
proof -
  from assms have nz: "x \<noteq> 0" and xp: "0 < x" by simp_all
  have "0 \<le> exponent x"
  proof (rule ccontr)
    assume "\<not> 0 \<le> exponent x"
    then have "exponent x + 1 \<le> 0" by simp
    then have "pow2 (exponent x + 1) \<le> pow2 0" by (rule pow2_mono)
    with exponent_upper [OF nz] assms show False by simp
  qed
  then have "- 1022 < exponent x" by simp
  from exponent_lower [OF nz this] xp have le: "pow2 (exponent x) \<le> x" by simp
  have "pow2 (exponent x - 53) = pow2 (exponent x) * pow2 (- 53)"
    using pow2_add [of "exponent x" "- 53"] by simp
  also have "\<dots> \<le> x * pow2 (- 53)" using le by (intro mult_right_mono) simp_all
  also have "\<dots> \<le> x * (1 / 100)" using xp by (intro mult_left_mono) (simp_all add: pow2_def)
  finally have "pow2 (exponent x - 53) \<le> x / 100" by simp
  with nearest64_error [of x] show ?thesis by linarith
qed

lemma pow2_1023: "pow2 1023 = 2 ^ 1023"
  by (simp add: pow2_def)

lemma pow2_1024: "pow2 1024 = 2 ^ 1024"
  by (simp add: pow2_def)

lemma round64_finite:
  assumes "\<bar>x\<bar> \<le> pow2 1023"
  shows "round64 x = Finite (nearest64 x)"
proof -
  from assms have "\<bar>nearest64 x\<bar> \<le> pow2 1023" by (intro nearest64_abs_upper) simp_all
  moreover have "pow2 1023 < pow2 1024" by (intro pow2_less) simp
  ultimately have "\<bar>nearest64 x\<bar> < 2 ^ 1024" by (simp add: pow2_1024)
  then show ?thesis by (simp add: round64_def abs_less_iff not_le)
qed

lemma round64_overflow:
  assumes "2 ^ 1024 \<le> x"
  shows "round64 x = PosInfinity"
proof -
  from assms have "pow2 1024 \<le> x" by (simp add: pow2_1024)
  then have "pow2 1024 \<le> nearest64 x" by (intro nearest64_lower) simp_all
  then show ?thesis by (simp add: round64_def pow2_1024)
qed

lemma round64_positive:
  assumes "pow2 (- 1074) \<le> x"
  shows "round64 x = PosInfinity \<or> (\<exists>y. 0 < y \<and> round64 x = Finite y)"
proof -
  from assms have "pow2 (- 1074) \<le> nearest64 x" by (intro nearest64_lower) simp_all
  then have "0 < nearest64 x" using pow2_pos [of "- 1074"] by linarith
  then show ?thesis by (auto simp add: round64_def)
qed

lemma round64_nonneg:
  assumes "0 \<le> x"
  shows "round64 x = PosInfinity \<or> (\<exists>y. 0 \<le> y \<and> round64 x = Finite y)"
  using nearest64_nonneg [OF assms] by (auto simp add: round64_def)

lemma round64_0 [simp]: "round64 0 = Finite 0"
  by (simp add: round64_def)

text \<open>Rules that evaluate an operation at given numerals.\<close>

lemma bitlength_eval:
  "bitlength 0 = 0"
  "bitlength (Suc 0) = Suc 0"
  "bitlength (numeral k) = Suc (bitlength (numeral k div 2))"
  by (simp_all add: bitlength.simps [of 0] bitlength.simps [of "Suc 0"]
      bitlength.simps [of "numeral k"])

lemma round64_small: "\<bar>x\<bar> \<le> 1000000 \<Longrightarrow> round64 x = Finite (nearest64 x)"
proof (rule round64_finite)
  assume "\<bar>x\<bar> \<le> 1000000"
  moreover have "(1000000::real) \<le> 2 ^ 20" by simp
  moreover have "(2::real) ^ 20 \<le> 2 ^ 1023" by (intro power_increasing) simp_all
  ultimately show "\<bar>x\<bar> \<le> pow2 1023" by (simp add: pow2_1023)
qed

lemmas eval64 =
  round64_small nearest64_def exponent_def pow2_def round_half_even_def bitlength_eval
  sub64_def max64_def Math_max_def

section \<open>Facts about the operations\<close>

lemma clamp_at_zero:
  "Math_max [Finite 0, y] =
     (case y of Finite x \<Rightarrow> Finite (max 0 x) | PosInfinity \<Rightarrow> PosInfinity
      | NegInfinity \<Rightarrow> Finite 0 | NaN \<Rightarrow> NaN)"
  by (cases y) (simp_all add: Math_max_def max64_def max_def)

lemma clamp_not_negative: "\<not> less64 (Math_max [Finite 0, y]) (Finite 0)"
  by (cases y) (simp_all add: clamp_at_zero)

lemma clamp_le_zero: "le64 (Math_max [Finite 0, y]) (Finite 0) \<longleftrightarrow> Math_max [Finite 0, y] = Finite 0"
  by (cases y) (auto simp add: clamp_at_zero max_def)

lemma initializeAgeDistribution_fields [simp]:
  "startingPopulation (initializeAgeDistribution s) = startingPopulation s"
  "replicationChance (initializeAgeDistribution s) = replicationChance s"
  "deathChance (initializeAgeDistribution s) = deathChance s"
  "crowdingCoefficient (initializeAgeDistribution s) = crowdingCoefficient s"
  "population (initializeAgeDistribution s) = population s"
  "time (initializeAgeDistribution s) = time s"
  "data (initializeAgeDistribution s) = data s"
  "isRunning (initializeAgeDistribution s) = isRunning s"
  "ageGroups (initializeAgeDistribution s) = ageGroups s"
  "showResetWarning (initializeAgeDistribution s) = showResetWarning s"
  by (simp_all add: initializeAgeDistribution_def split: number.split)

lemma resetSimulation_fields [simp]:
  "startingPopulation (resetSimulation s) = startingPopulation s"
  "replicationChance (resetSimulation s) = replicationChance s"
  "deathChance (resetSimulation s) = deathChance s"
  "crowdingCoefficient (resetSimulation s) = crowdingCoefficient s"
  "population (resetSimulation s) = Finite (startingPopulation s)"
  "time (resetSimulation s) = 0"
  "data (resetSimulation s) =
     [\<lparr>dp_time = 0, dp_population = Finite (startingPopulation s), dp_delta = Finite 0\<rparr>]"
  "isRunning (resetSimulation s) = False"
  "ageGroups (resetSimulation s) = ageGroups s"
  "showResetWarning (resetSimulation s) = showResetWarning s"
  by (simp_all add: resetSimulation_def)

lemma resetSimulation_idem: "resetSimulation (resetSimulation s) = resetSimulation s"
  by (simp add: resetSimulation_def initializeAgeDistribution_def split: number.split)

lemma advanceTick_paused: "\<not> isRunning s \<Longrightarrow> advanceTick s = s"
  by (simp add: advanceTick_def)

lemma advanceTick_paused_funpow: "\<not> isRunning s \<Longrightarrow> (advanceTick ^^ n) s = s"
  by (induction n) (simp_all add: advanceTick_paused)

lemma advanceTick_params [simp]:
  "startingPopulation (advanceTick s) = startingPopulation s"
  "replicationChance (advanceTick s) = replicationChance s"
  "deathChance (advanceTick s) = deathChance s"
  "crowdingCoefficient (advanceTick s) = crowdingCoefficient s"
  "showResetWarning (advanceTick s) = showResetWarning s"
  by (simp_all add: advanceTick_def Let_def)

lemma advanceTick_running:
  assumes "isRunning s"
  defines "n \<equiv> Math_max [Finite 0, Math_round (add64 (population s)
      (mul64 (sub64 (sub64 (Finite (replicationChance s)) (Finite (deathChance s)))
                (mul64 (Finite (crowdingCoefficient s)) (population s)))
         (population s)))]"
  shows "population (advanceTick s) = n"
    and "time (advanceTick s) = time s + 1"
    and "data (advanceTick s) =
           data s @ [\<lparr>dp_time = time s + 1, dp_population = n,
                      dp_delta = sub64 n (population s)\<rparr>]"
    and "isRunning (advanceTick s) = (n \<noteq> Finite 0)"
  using assms by (simp_all add: advanceTick_def Let_def clamp_le_zero)

lemma advanceTick_not_negative:
  "\<not> less64 (population s) (Finite 0) \<Longrightarrow> \<not> less64 (population (advanceTick s)) (Finite 0)"
  by (cases "isRunning s") (simp_all add: advanceTick_running clamp_not_negative advanceTick_paused)

lemma consistent_initialState: "consistent initialState"
  by (simp add: consistent_def initialState_def)

lemma consistent_resetSimulation:
  "0 \<le> startingPopulation s \<Longrightarrow> consistent (resetSimulation s)"
  by (simp add: consistent_def)

lemma consistent_advanceTick:
  assumes "consistent s"
  shows "consistent (advanceTick s)"
proof (cases "isRunning s")
  case False
  with assms show ?thesis by (simp add: advanceTick_paused)
next
  case True
  from assms have ne: "data s \<noteq> []" by (simp add: consistent_def)
  from True assms show ?thesis
    using ne by (simp add: consistent_def advanceTick_running clamp_not_negative)
qed

lemma rangeInput_lower: "rangeInput mn mx st v \<Longrightarrow> mn \<le> v"
  by (simp add: rangeInput_def)

lemma consistent_handle: "consistent s \<Longrightarrow> consistent (handle e s)"
proof (cases e)
  case (StartingPopulationChange v)
  assume c: "consistent s"
  show ?thesis
  proof (cases "isRunning s \<or> \<not> rangeInput 10 1000 10 v \<or> nearest64 v = startingPopulation s")
    case True
    with c StartingPopulationChange show ?thesis
      by (auto simp add: setStartingPopulation_def)
  next
    case False
    then have "0 \<le> v" using rangeInput_lower [of 10 1000 10 v] by simp
    then have "0 \<le> nearest64 v" by (rule nearest64_nonneg)
    then have "consistent (resetSimulation (s\<lparr>startingPopulation := nearest64 v\<rparr>))"
      by (intro consistent_resetSimulation) simp
    with False StartingPopulationChange show ?thesis
      by (simp add: setStartingPopulation_def)
  qed
next
  case ResetClick
  assume "consistent s"
  then show ?thesis using ResetClick
    by (cases "isRunning s")
       (simp_all add: handleResetClick_def consistent_resetSimulation, simp_all add: consistent_def)
next
  case IntervalTick
  assume "consistent s"
  then show ?thesis using IntervalTick by (simp add: consistent_advanceTick)
qed (simp_all add: consistent_def setIsRunning_def hideResetWarning_def)

lemma consistent_run: "consistent s \<Longrightarrow> consistent (run evs s)"
  unfolding run_def by (induction evs arbitrary: s) (simp_all add: consistent_handle)

lemma consistent_mounted: "consistent mounted"
  unfolding mounted_def
  by (rule consistent_resetSimulation) (simp add: initialState_def)

lemma run_append: "run (evs @ evs') s = run evs' (run evs s)"
  by (simp add: run_def)

lemma run_ticks: "run (replicate n IntervalTick) s = (advanceTick ^^ n) s"
  by (induction n arbitrary: s) (simp_all add: run_def funpow_swap1)

text \<open>The literals and the slider values of the scenarios, as binary64 values.\<close>

lemma literal_values:
  "nearest64 (1 / 10) = 3602879701896397 / 36028797018963968"
  "nearest64 (5 / 100) = 3602879701896397 / 72057594037927936"
  "nearest64 (1 / 1000) = 1152921504606847 / 1152921504606846976"
  "nearest64 (1 / 100) = 5764607523034235 / 576460752303423488"
  "nearest64 (325 / 1000) = 5854679515581645 / 18014398509481984"
  "nearest64 (51 / 1000) = 7349874591868649 / 144115188075855872"
  "nearest64 (4 / 10000) = 7378697629483821 / 18446744073709551616"
  "nearest64 (1 / 20) = 3602879701896397 / 72057594037927936"
  "nearest64 (13 / 40) = 5854679515581645 / 18014398509481984"
  "nearest64 (1 / 2500) = 7378697629483821 / 18446744073709551616"
  "nearest64 (1 / 2) = 1 / 2"
  "nearest64 10 = 10"
  "nearest64 50 = 50"
  "nearest64 1000 = 1000"
  by (simp_all add: eval64)

text \<open>The scenarios, evaluated.\<close>

lemma scenarioA_fields:
  "startingPopulation scenarioA = 100"
  "replicationChance scenarioA = nearest64 (1 / 10)"
  "deathChance scenarioA = nearest64 (5 / 100)"
  "crowdingCoefficient scenarioA = nearest64 (1 / 1000)"
  "population scenarioA = Finite 100"
  "time scenarioA = 0"
  "data scenarioA = [\<lparr>dp_time = 0, dp_population = Finite 100, dp_delta = Finite 0\<rparr>]"
  "isRunning scenarioA"
  "\<not> showResetWarning scenarioA"
  by (simp_all add: scenarioA_def run_def mounted_def initialState_def setIsRunning_def)

lemma scenarioA_tick1:
  "population (advanceTick scenarioA) = Finite 95"
  "time (advanceTick scenarioA) = 1"
  "data (advanceTick scenarioA) =
     [\<lparr>dp_time = 0, dp_population = Finite 100, dp_delta = Finite 0\<rparr>,
      \<lparr>dp_time = 1, dp_population = Finite 95, dp_delta = Finite (- 5)\<rparr>]"
  "isRunning (advanceTick scenarioA)"
  by (simp_all add: advanceTick_running scenarioA_fields literal_values eval64)

lemma scenarioA_tick2:
  "population (advanceTick (advanceTick scenarioA)) = Finite 91"
  "time (advanceTick (advanceTick scenarioA)) = 2"
  "data (advanceTick (advanceTick scenarioA)) =
     [\<lparr>dp_time = 0, dp_population = Finite 100, dp_delta = Finite 0\<rparr>,
      \<lparr>dp_time = 1, dp_population = Finite 95, dp_delta = Finite (- 5)\<rparr>,
      \<lparr>dp_time = 2, dp_population = Finite 91, dp_delta = Finite (- 4)\<rparr>]"
  "isRunning (advanceTick (advanceTick scenarioA))"
  by (simp_all add: advanceTick_running scenarioA_tick1 scenarioA_fields literal_values eval64)

lemma tick_from_104:
  "population (advanceTick (scenarioA\<lparr>population := Finite 104\<rparr>)) = Finite 98"
  "dp_delta (last (data (advanceTick (scenarioA\<lparr>population := Finite 104\<rparr>)))) = Finite (- 6)"
  by (simp_all add: advanceTick_running scenarioA_fields literal_values eval64)

lemma scenarioC_fields:
  "startingPopulation scenarioC = 50"
  "replicationChance scenarioC = nearest64 (1 / 100)"
  "deathChance scenarioC = nearest64 (1 / 10)"
  "crowdingCoefficient scenarioC = nearest64 (1 / 1000)"
  "population scenarioC = Finite 50"
  "time scenarioC = 0"
  "data scenarioC = [\<lparr>dp_time = 0, dp_population = Finite 50, dp_delta = Finite 0\<rparr>]"
  "isRunning scenarioC"
  by (simp_all add: scenarioC_def run_def mounted_def initialState_def rangeInput_def
      setStartingPopulation_def setIsRunning_def literal_values)

lemma declining_scenarioC: "declining 50 scenarioC"
  by (simp add: declining_def scenarioC_fields)

lemma declining_step:
  assumes "declining P s"
    and "Math_max [Finite 0, Math_round (add64 (Finite P)
           (mul64 (sub64 (sub64 (Finite (nearest64 (1 / 100))) (Finite (nearest64 (1 / 10))))
                     (mul64 (Finite (nearest64 (1 / 1000))) (Finite P)))
              (Finite P)))] = Finite P'"
    and "P' \<noteq> 0"
  shows "declining P' (advanceTick s)"
proof -
  from assms(1) have r: "isRunning s"
    and q: "replicationChance s = nearest64 (1 / 100)" "deathChance s = nearest64 (1 / 10)"
      "crowdingCoefficient s = nearest64 (1 / 1000)" "population s = Finite P"
    by (simp_all add: declining_def)
  from advanceTick_running(1,4) [OF r] assms(2,3)
  have "population (advanceTick s) = Finite P'" "isRunning (advanceTick s)"
    unfolding q by simp_all
  then show ?thesis by (simp add: declining_def q)
qed

lemma decline_from_50: "declining 50 s \<Longrightarrow> declining 43 (advanceTick s)"
  by (erule declining_step) (simp_all add: literal_values eval64)

lemma decline_from_43: "declining 43 s \<Longrightarrow> declining 37 (advanceTick s)"
  by (erule declining_step) (simp_all add: literal_values eval64)

lemma decline_from_37: "declining 37 s \<Longrightarrow> declining 32 (advanceTick s)"
  by (erule declining_step) (simp_all add: literal_values eval64)

lemma decline_from_32: "declining 32 s \<Longrightarrow> declining 28 (advanceTick s)"
  by (erule declining_step) (simp_all add: literal_values eval64)

lemma decline_from_28: "declining 28 s \<Longrightarrow> declining 25 (advanceTick s)"
  by (erule declining_step) (simp_all add: literal_values eval64)

lemma decline_from_25: "declining 25 s \<Longrightarrow> declining 22 (advanceTick s)"
  by (erule declining_step) (simp_all add: literal_values eval64)

lemma decline_from_22: "declining 22 s \<Longrightarrow> declining 20 (advanceTick s)"
  by (erule declining_step) (simp_all add: literal_values eval64)

lemma decline_from_20: "declining 20 s \<Longrightarrow> declining 18 (advanceTick s)"
  by (erule declining_step) (simp_all add: literal_values eval64)

lemma decline_from_18: "declining 18 s \<Longrightarrow> declining 16 (advanceTick s)"
  by (erule declining_step) (simp_all add: literal_values eval64)

lemma decline_from_16: "declining 16 s \<Longrightarrow> declining 14 (advanceTick s)"
  by (erule declining_step) (simp_all add: literal_values eval64)

lemma decline_from_14: "declining 14 s \<Longrightarrow> declining 13 (advanceTick s)"
  by (erule declining_step) (simp_all add: literal_values eval64)

lemma decline_from_13: "declining 13 s \<Longrightarrow> declining 12 (advanceTick s)"
  by (erule declining_step) (simp_all add: literal_values eval64)

lemma decline_from_12: "declining 12 s \<Longrightarrow> declining 11 (advanceTick s)"
  by (erule declining_step) (simp_all add: literal_values eval64)

lemma decline_from_11: "declining 11 s \<Longrightarrow> declining 10 (advanceTick s)"
  by (erule declining_step) (simp_all add: literal_values eval64)

lemma decline_from_10: "declining 10 s \<Longrightarrow> declining 9 (advanceTick s)"
  by (erule declining_step) (simp_all add: literal_values eval64)

lemma decline_from_9: "declining 9 s \<Longrightarrow> declining 8 (advanceTick s)"
  by (erule declining_step) (simp_all add: literal_values eval64)

lemma decline_from_8: "declining 8 s \<Longrightarrow> declining 7 (advanceTick s)"
  by (erule declining_step) (simp_all add: literal_values eval64)

lemma decline_from_7: "declining 7 s \<Longrightarrow> declining 6 (advanceTick s)"
  by (erule declining_step) (simp_all add: literal_values eval64)

lemma decline_from_6: "declining 6 s \<Longrightarrow> declining 5 (advanceTick s)"
  by (erule declining_step) (simp_all add: literal_values eval64)

lemma decline_from_5: "declining 5 s \<Longrightarrow> declining 5 (advanceTick s)"
  by (erule declining_step) (simp_all add: literal_values eval64)

lemma decline_step:
  assumes "P \<in> set declineValues" and "declining P s"
  shows "\<exists>P' \<in> set declineValues. declining P' (advanceTick s)"
proof -
  from assms(1) consider "P = 50" | "P = 43" | "P = 37" | "P = 32" | "P = 28" | "P = 25" | "P = 22" | "P = 20" | "P = 18" | "P = 16" | "P = 14" | "P = 13" | "P = 12" | "P = 11" | "P = 10" | "P = 9" | "P = 8" | "P = 7" | "P = 6" | "P = 5"
    by (auto simp add: declineValues_def)
  then show ?thesis
  proof cases
    case 1
    with assms(2) have "declining 43 (advanceTick s)" by (simp add: decline_from_50)
    moreover have "43 \<in> set declineValues" by (simp add: declineValues_def)
    ultimately show ?thesis by blast
  next
    case 2
    with assms(2) have "declining 37 (advanceTick s)" by (simp add: decline_from_43)
    moreover have "37 \<in> set declineValues" by (simp add: declineValues_def)
    ultimately show ?thesis by blast
  next
    case 3
    with assms(2) have "declining 32 (advanceTick s)" by (simp add: decline_from_37)
    moreover have "32 \<in> set declineValues" by (simp add: declineValues_def)
    ultimately show ?thesis by blast
  next
    case 4
    with assms(2) have "declining 28 (advanceTick s)" by (simp add: decline_from_32)
    moreover have "28 \<in> set declineValues" by (simp add: declineValues_def)
    ultimately show ?thesis by blast
  next
    case 5
    with assms(2) have "declining 25 (advanceTick s)" by (simp add: decline_from_28)
    moreover have "25 \<in> set declineValues" by (simp add: declineValues_def)
    ultimately show ?thesis by blast
  next
    case 6
    with assms(2) have "declining 22 (advanceTick s)" by (simp add: decline_from_25)
    moreover have "22 \<in> set declineValues" by (simp add: declineValues_def)
    ultimately show ?thesis by blast
  next
    case 7
    with assms(2) have "declining 20 (advanceTick s)" by (simp add: decline_from_22)
    moreover have "20 \<in> set declineValues" by (simp add: declineValues_def)
    ultimately show ?thesis by blast
  next
    case 8
    with assms(2) have "declining 18 (advanceTick s)" by (simp add: decline_from_20)
    moreover have "18 \<in> set declineValues" by (simp add: declineValues_def)
    ultimately show ?thesis by blast
  next
    case 9
    with assms(2) have "declining 16 (advanceTick s)" by (simp add: decline_from_18)
    moreover have "16 \<in> set declineValues" by (simp add: declineValues_def)
    ultimately show ?thesis by blast
  next
    case 10
    with assms(2) have "declining 14 (advanceTick s)" by (simp add: decline_from_16)
    moreover have "14 \<in> set declineValues" by (simp add: declineValues_def)
    ultimately show ?thesis by blast
  next
    case 11
    with assms(2) have "declining 13 (advanceTick s)" by (simp add: decline_from_14)
    moreover have "13 \<in> set declineValues" by (simp add: declineValues_def)
    ultimately show ?thesis by blast
  next
    case 12
    with assms(2) have "declining 12 (advanceTick s)" by (simp add: decline_from_13)
    moreover have "12 \<in> set declineValues" by (simp add: declineValues_def)
    ultimately show ?thesis by blast
  next
    case 13
    with assms(2) have "declining 11 (advanceTick s)" by (simp add: decline_from_12)
    moreover have "11 \<in> set declineValues" by (simp add: declineValues_def)
    ultimately show ?thesis by blast
  next
    case 14
    with assms(2) have "declining 10 (advanceTick s)" by (simp add: decline_from_11)
    moreover have "10 \<in> set declineValues" by (simp add: declineValues_def)
    ultimately show ?thesis by blast
  next
    case 15
    with assms(2) have "declining 9 (advanceTick s)" by (simp add: decline_from_10)
    moreover have "9 \<in> set declineValues" by (simp add: declineValues_def)
    ultimately show ?thesis by blast
  next
    case 16
    with assms(2) have "declining 8 (advanceTick s)" by (simp add: decline_from_9)
    moreover have "8 \<in> set declineValues" by (simp add: declineValues_def)
    ultimately show ?thesis by blast
  next
    case 17
    with assms(2) have "declining 7 (advanceTick s)" by (simp add: decline_from_8)
    moreover have "7 \<in> set declineValues" by (simp add: declineValues_def)
    ultimately show ?thesis by blast
  next
    case 18
    with assms(2) have "declining 6 (advanceTick s)" by (simp add: decline_from_7)
    moreover have "6 \<in> set declineValues" by (simp add: declineValues_def)
    ultimately show ?thesis by blast
  next
    case 19
    with assms(2) have "declining 5 (advanceTick s)" by (simp add: decline_from_6)
    moreover have "5 \<in> set declineValues" by (simp add: declineValues_def)
    ultimately show ?thesis by blast
  next
    case 20
    with assms(2) have "declining 5 (advanceTick s)" by (simp add: decline_from_5)
    moreover have "5 \<in> set declineValues" by (simp add: declineValues_def)
    ultimately show ?thesis by blast
  qed
qed

lemma decline_invariant:
  "\<exists>P \<in> set declineValues. declining P ((advanceTick ^^ n) scenarioC)"
proof (induction n)
  case 0
  have "50 \<in> set declineValues" by (simp add: declineValues_def)
  with declining_scenarioC show ?case by auto
next
  case (Suc n)
  then obtain P where "P \<in> set declineValues" "declining P ((advanceTick ^^ n) scenarioC)"
    by blast
  from decline_step [OF this] show ?case by simp
qed

lemma declineValues_positive: "P \<in> set declineValues \<Longrightarrow> 0 < P"
  by (auto simp add: declineValues_def)

lemma decline_reaches_five: "declining 5 ((advanceTick ^^ 19) scenarioC)"
proof -
  have d0: "declining 50 ((advanceTick ^^ 0) scenarioC)"
    by (simp add: declining_scenarioC)
  have d1: "declining 43 ((advanceTick ^^ 1) scenarioC)"
    using decline_from_50 [OF d0] by (simp add: eval_nat_numeral)
  have d2: "declining 37 ((advanceTick ^^ 2) scenarioC)"
    using decline_from_43 [OF d1] by (simp add: eval_nat_numeral)
  have d3: "declining 32 ((advanceTick ^^ 3) scenarioC)"
    using decline_from_37 [OF d2] by (simp add: eval_nat_numeral)
  have d4: "declining 28 ((advanceTick ^^ 4) scenarioC)"
    using decline_from_32 [OF d3] by (simp add: eval_nat_numeral)
  have d5: "declining 25 ((advanceTick ^^ 5) scenarioC)"
    using decline_from_28 [OF d4] by (simp add: eval_nat_numeral)
  have d6: "declining 22 ((advanceTick ^^ 6) scenarioC)"
    using decline_from_25 [OF d5] by (simp add: eval_nat_numeral)
  have d7: "declining 20 ((advanceTick ^^ 7) scenarioC)"
    using decline_from_22 [OF d6] by (simp add: eval_nat_numeral)
  have d8: "declining 18 ((advanceTick ^^ 8) scenarioC)"
    using decline_from_20 [OF d7] by (simp add: eval_nat_numeral)
  have d9: "declining 16 ((advanceTick ^^ 9) scenarioC)"
    using decline_from_18 [OF d8] by (simp add: eval_nat_numeral)
  have d10: "declining 14 ((advanceTick ^^ 10) scenarioC)"
    using decline_from_16 [OF d9] by (simp add: eval_nat_numeral)
  have d11: "declining 13 ((advanceTick ^^ 11) scenarioC)"
    using decline_from_14 [OF d10] by (simp add: eval_nat_numeral)
  have d12: "declining 12 ((advanceTick ^^ 12) scenarioC)"
    using decline_from_13 [OF d11] by (simp add: eval_nat_numeral)
  have d13: "declining 11 ((advanceTick ^^ 13) scenarioC)"
    using decline_from_12 [OF d12] by (simp add: eval_nat_numeral)
  have d14: "declining 10 ((advanceTick ^^ 14) scenarioC)"
    using decline_from_11 [OF d13] by (simp add: eval_nat_numeral)
  have d15: "declining 9 ((advanceTick ^^ 15) scenarioC)"
    using decline_from_10 [OF d14] by (simp add: eval_nat_numeral)
  have d16: "declining 8 ((advanceTick ^^ 16) scenarioC)"
    using decline_from_9 [OF d15] by (simp add: eval_nat_numeral)
  have d17: "declining 7 ((advanceTick ^^ 17) scenarioC)"
    using decline_from_8 [OF d16] by (simp add: eval_nat_numeral)
  have d18: "declining 6 ((advanceTick ^^ 18) scenarioC)"
    using decline_from_7 [OF d17] by (simp add: eval_nat_numeral)
  have d19: "declining 5 ((advanceTick ^^ 19) scenarioC)"
    using decline_from_6 [OF d18] by (simp add: eval_nat_numeral)
  from d19 show ?thesis .
qed

lemma decline_stays_five: "declining 5 ((advanceTick ^^ (19 + n)) scenarioC)"
proof (induction n)
  case 0
  show ?case using decline_reaches_five by simp
next
  case (Suc n)
  from decline_from_5 [OF Suc] show ?case by (simp only: add_Suc_right funpow.simps o_apply)
qed

lemma extinctionStart_fields:
  "startingPopulation extinctionStart = 10"
  "replicationChance extinctionStart = 0"
  "deathChance extinctionStart = 1 / 2"
  "crowdingCoefficient extinctionStart = nearest64 (1 / 100)"
  "population extinctionStart = Finite 10"
  "time extinctionStart = 0"
  "data extinctionStart = [\<lparr>dp_time = 0, dp_population = Finite 10, dp_delta = Finite 0\<rparr>]"
  "isRunning extinctionStart"
  by (simp_all add: extinctionStart_def run_def mounted_def initialState_def rangeInput_def
      setStartingPopulation_def setIsRunning_def literal_values)

lemma extinction_tick1:
  "population (advanceTick extinctionStart) = Finite 4"
  "time (advanceTick extinctionStart) = 1"
  "data (advanceTick extinctionStart) =
     [\<lparr>dp_time = 0, dp_population = Finite 10, dp_delta = Finite 0\<rparr>,
      \<lparr>dp_time = 1, dp_population = Finite 4, dp_delta = Finite (- 6)\<rparr>]"
  "isRunning (advanceTick extinctionStart)"
  by (simp_all add: advanceTick_running extinctionStart_fields literal_values eval64)

lemma extinction_tick2:
  "population (advanceTick (advanceTick extinctionStart)) = Finite 2"
  "time (advanceTick (advanceTick extinctionStart)) = 2"
  "data (advanceTick (advanceTick extinctionStart)) =
     [\<lparr>dp_time = 0, dp_population = Finite 10, dp_delta = Finite 0\<rparr>,
      \<lparr>dp_time = 1, dp_population = Finite 4, dp_delta = Finite (- 6)\<rparr>,
      \<lparr>dp_time = 2, dp_population = Finite 2, dp_delta = Finite (- 2)\<rparr>]"
  "isRunning (advanceTick (advanceTick extinctionStart))"
  by (simp_all add: advanceTick_running extinction_tick1 extinctionStart_fields literal_values
      eval64)

lemma nearExtinction_eq:
  "nearExtinction = advanceTick (advanceTick (advanceTick extinctionStart))"
  by (simp add: nearExtinction_def extinctionStart_def run_def)

lemma nearExtinction_fields:
  "startingPopulation nearExtinction = 10"
  "replicationChance nearExtinction = 0"
  "deathChance nearExtinction = 1 / 2"
  "crowdingCoefficient nearExtinction = nearest64 (1 / 100)"
  "population nearExtinction = Finite 1"
  "time nearExtinction = 3"
  "data nearExtinction =
     [\<lparr>dp_time = 0, dp_population = Finite 10, dp_delta = Finite 0\<rparr>,
      \<lparr>dp_time = 1, dp_population = Finite 4, dp_delta = Finite (- 6)\<rparr>,
      \<lparr>dp_time = 2, dp_population = Finite 2, dp_delta = Finite (- 2)\<rparr>,
      \<lparr>dp_time = 3, dp_population = Finite 1, dp_delta = Finite (- 1)\<rparr>]"
  "isRunning nearExtinction"
  unfolding nearExtinction_eq
  by (simp_all add: advanceTick_running extinction_tick2 extinctionStart_fields literal_values
      eval64)

lemma nearExtinction_tick:
  "population (advanceTick nearExtinction) = Finite 0"
  "time (advanceTick nearExtinction) = 4"
  "data (advanceTick nearExtinction) =
     [\<lparr>dp_time = 0, dp_population = Finite 10, dp_delta = Finite 0\<rparr>,
      \<lparr>dp_time = 1, dp_population = Finite 4, dp_delta = Finite (- 6)\<rparr>,
      \<lparr>dp_time = 2, dp_population = Finite 2, dp_delta = Finite (- 2)\<rparr>,
      \<lparr>dp_time = 3, dp_population = Finite 1, dp_delta = Finite (- 1)\<rparr>,
      \<lparr>dp_time = 4, dp_population = Finite 0, dp_delta = Finite (- 1)\<rparr>]"
  "\<not> isRunning (advanceTick nearExtinction)"
  by (simp_all add: advanceTick_running nearExtinction_fields literal_values eval64)

lemma roundingDecides_fields:
  "startingPopulation roundingDecides = 100"
  "replicationChance roundingDecides = 0"
  "deathChance roundingDecides = nearest64 (325 / 1000)"
  "crowdingCoefficient roundingDecides = nearest64 (1 / 1000)"
  "population roundingDecides = Finite 100"
  "time roundingDecides = 0"
  "data roundingDecides = [\<lparr>dp_time = 0, dp_population = Finite 100, dp_delta = Finite 0\<rparr>]"
  "isRunning roundingDecides"
  by (simp_all add: roundingDecides_def run_def mounted_def initialState_def rangeInput_def
      setIsRunning_def)

text \<open>
  In this state the sum \<open>P + (r - d - c * P) * P\<close> is \<open>57.5\<close> over the reals and
  \<open>57.49999999999999\<close> in binary64, so the tick gives \<open>57\<close>, not \<open>58\<close>.
\<close>

lemma roundingDecides_raw:
  "add64 (population roundingDecides)
     (mul64 (sub64 (sub64 (Finite (replicationChance roundingDecides))
                      (Finite (deathChance roundingDecides)))
               (mul64 (Finite (crowdingCoefficient roundingDecides))
                  (population roundingDecides)))
        (population roundingDecides)) =
   Finite (8092405580431359 / 140737488355328)"
  by (simp add: roundingDecides_fields literal_values eval64)

lemma roundingDecides_exact:
  "\<lfloor>(100::real) + (0 - 325 / 1000 - 1 / 1000 * 100) * 100 + 1 / 2\<rfloor> = 58"
  "\<lfloor>(8092405580431359::real) / 140737488355328 + 1 / 2\<rfloor> = 57"
  by simp_all

lemma clamped_fields:
  "startingPopulation clamped = 1000"
  "replicationChance clamped = 0"
  "deathChance clamped = 1 / 2"
  "crowdingCoefficient clamped = nearest64 (1 / 100)"
  "population clamped = Finite 1000"
  "time clamped = 0"
  "data clamped = [\<lparr>dp_time = 0, dp_population = Finite 1000, dp_delta = Finite 0\<rparr>]"
  "isRunning clamped"
  by (simp_all add: clamped_def run_def mounted_def initialState_def rangeInput_def
      setStartingPopulation_def setIsRunning_def literal_values)

lemma clamped_raw:
  "add64 (population clamped)
     (mul64 (sub64 (sub64 (Finite (replicationChance clamped)) (Finite (deathChance clamped)))
               (mul64 (Finite (crowdingCoefficient clamped)) (population clamped)))
        (population clamped)) =
   Finite (- 9500)"
  by (simp add: clamped_fields literal_values eval64)

lemma capacityRounded_fields:
  "replicationChance capacityRounded = nearest64 (51 / 1000)"
  "deathChance capacityRounded = nearest64 (5 / 100)"
  "crowdingCoefficient capacityRounded = nearest64 (4 / 10000)"
  by (simp_all add: capacityRounded_def run_def mounted_def initialState_def rangeInput_def)

lemma noCrowding_fields:
  "replicationChance noCrowding = nearest64 (1 / 10)"
  "deathChance noCrowding = nearest64 (5 / 100)"
  "crowdingCoefficient noCrowding = 0"
  by (simp_all add: noCrowding_def run_def mounted_def initialState_def rangeInput_def)

lemma overflowing_fields:
  "startingPopulation overflowing = 1000"
  "replicationChance overflowing = 1 / 2"
  "deathChance overflowing = 0"
  "crowdingCoefficient overflowing = 0"
  "population overflowing = Finite 1000"
  "isRunning overflowing"
  by (simp_all add: overflowing_def run_def mounted_def initialState_def rangeInput_def
      setStartingPopulation_def setIsRunning_def literal_values)

section \<open>The claims\<close>

text \<open>
  C1. In a running state, one tick sets the population to
  \<open>max 0 (round (P + (r - d - c * P) * P))\<close> for the population \<open>P\<close> before the tick, the
  sum computed in binary64 as the page computes it: when that sum is a finite \<open>x\<close>, the
  new population is the integer nearest to \<open>x\<close> (a tie going up), or \<open>0\<close> when that
  integer is negative. The tick adds one to the time and appends to the data one point
  with the new time, the new population and, as delta, the new population minus \<open>P\<close>.
\<close>

theorem advanceTick_recurrence:
  assumes "isRunning s"
  shows "population (advanceTick s) =
           Math_max [Finite 0, Math_round (add64 (population s)
             (mul64 (sub64 (sub64 (Finite (replicationChance s)) (Finite (deathChance s)))
                       (mul64 (Finite (crowdingCoefficient s)) (population s)))
                (population s)))]
       \<and> (\<forall>x. add64 (population s)
                (mul64 (sub64 (sub64 (Finite (replicationChance s)) (Finite (deathChance s)))
                          (mul64 (Finite (crowdingCoefficient s)) (population s)))
                   (population s)) = Finite x \<longrightarrow>
              population (advanceTick s) = Finite (max 0 (of_int \<lfloor>x + 1 / 2\<rfloor>)))
       \<and> time (advanceTick s) = time s + 1
       \<and> data (advanceTick s) =
           data s @ [\<lparr>dp_time = time (advanceTick s),
                      dp_population = population (advanceTick s),
                      dp_delta = sub64 (population (advanceTick s)) (population s)\<rparr>]"
  using assms by (simp add: advanceTick_running clamp_at_zero)

theorem advanceTick_recurrence_witness:
  "isRunning roundingDecides
   \<and> population (advanceTick roundingDecides) = Finite 57
   \<and> time (advanceTick roundingDecides) = 1
   \<and> data (advanceTick roundingDecides) =
       [\<lparr>dp_time = 0, dp_population = Finite 100, dp_delta = Finite 0\<rparr>,
        \<lparr>dp_time = 1, dp_population = Finite 57, dp_delta = Finite (- 43)\<rparr>]
   \<and> isRunning clamped
   \<and> population (advanceTick clamped) = Finite 0
   \<and> data (advanceTick clamped) =
       [\<lparr>dp_time = 0, dp_population = Finite 1000, dp_delta = Finite 0\<rparr>,
        \<lparr>dp_time = 1, dp_population = Finite 0, dp_delta = Finite (- 1000)\<rparr>]"
proof -
  have r: "isRunning roundingDecides" by (simp add: roundingDecides_fields)
  note t = advanceTick_recurrence [OF r]
  from t [THEN conjunct2, THEN conjunct1, rule_format, OF roundingDecides_raw]
  have p: "population (advanceTick roundingDecides) = Finite 57" by simp
  from t [THEN conjunct2, THEN conjunct2, THEN conjunct1]
  have tm: "time (advanceTick roundingDecides) = 1"
    by (simp add: roundingDecides_fields)
  from t [THEN conjunct2, THEN conjunct2, THEN conjunct2]
  have d: "data (advanceTick roundingDecides) =
       [\<lparr>dp_time = 0, dp_population = Finite 100, dp_delta = Finite 0\<rparr>,
        \<lparr>dp_time = 1, dp_population = Finite 57, dp_delta = Finite (- 43)\<rparr>]"
    unfolding p tm by (simp add: roundingDecides_fields eval64)
  have r': "isRunning clamped" by (simp add: clamped_fields)
  note t' = advanceTick_recurrence [OF r']
  from t' [THEN conjunct2, THEN conjunct1, rule_format, OF clamped_raw]
  have p': "population (advanceTick clamped) = Finite 0" by simp
  from t' [THEN conjunct2, THEN conjunct2, THEN conjunct1]
  have tm': "time (advanceTick clamped) = 1" by (simp add: clamped_fields)
  from t' [THEN conjunct2, THEN conjunct2, THEN conjunct2]
  have d': "data (advanceTick clamped) =
       [\<lparr>dp_time = 0, dp_population = Finite 1000, dp_delta = Finite 0\<rparr>,
        \<lparr>dp_time = 1, dp_population = Finite 0, dp_delta = Finite (- 1000)\<rparr>]"
    unfolding p' tm' by (simp add: clamped_fields eval64)
  from r p tm d r' p' d' show ?thesis by simp
qed

text \<open>
  C2. In scenario C the carrying capacity is \<open>0\<close> and the crowding coefficient is
  positive, and yet no number of ticks brings the population to \<open>0\<close> or pauses the
  simulation: the population falls from \<open>50\<close> to \<open>5\<close> in nineteen ticks and stays
  there, since \<open>5 + (0.01 - 0.1 - 0.001 * 5) * 5 = 4.525\<close> rounds to \<open>5\<close>.
\<close>

theorem decline_stalls_above_zero:
  "calculateCarryingCapacity scenarioC = Finite 0
   \<and> 0 < crowdingCoefficient scenarioC
   \<and> (\<forall>n. population ((advanceTick ^^ n) scenarioC) \<noteq> Finite 0
          \<and> isRunning ((advanceTick ^^ n) scenarioC))
   \<and> (\<forall>n. population ((advanceTick ^^ (19 + n)) scenarioC) = Finite 5)"
proof -
  have "calculateCarryingCapacity scenarioC = Finite 0"
    by (simp add: calculateCarryingCapacity_def scenarioC_fields literal_values)
  moreover have "0 < crowdingCoefficient scenarioC"
    by (simp add: scenarioC_fields literal_values)
  moreover have "population ((advanceTick ^^ n) scenarioC) \<noteq> Finite 0
      \<and> isRunning ((advanceTick ^^ n) scenarioC)" for n
  proof -
    from decline_invariant [of n] obtain P where
      "P \<in> set declineValues" "declining P ((advanceTick ^^ n) scenarioC)" by blast
    with declineValues_positive [of P] show ?thesis by (auto simp add: declining_def)
  qed
  moreover have "population ((advanceTick ^^ (19 + n)) scenarioC) = Finite 5" for n
    using decline_stays_five [of n] by (simp add: declining_def)
  ultimately show ?thesis by blast
qed

text \<open>
  C3, as stated, fails: the first tick of scenario A does not give the population
  \<open>104\<close> with the delta \<open>4\<close>, since \<open>0.1 - 0.05 - 0.001 * 100 = -0.05\<close>.
\<close>

theorem scenarioA_first_tick_not_104:
  "\<not> (population (advanceTick scenarioA) = Finite 104
      \<and> dp_delta (last (data (advanceTick scenarioA))) = Finite 4)"
  by (simp add: scenarioA_tick1)

text \<open>
  C3, amended. In scenario A the first tick gives the population \<open>95\<close> with the delta
  \<open>-5\<close>, and the second tick, from \<open>95\<close>, gives \<open>91\<close> with the delta \<open>-4\<close>.
\<close>

theorem scenarioA_two_ticks:
  "population (advanceTick scenarioA) = Finite 95
   \<and> dp_delta (last (data (advanceTick scenarioA))) = Finite (- 5)
   \<and> population (advanceTick (advanceTick scenarioA)) = Finite 91
   \<and> dp_delta (last (data (advanceTick (advanceTick scenarioA)))) = Finite (- 4)"
  by (simp add: scenarioA_tick1 scenarioA_tick2)

text \<open>
  C4. \<^verbatim>\<open>calculateCarryingCapacity\<close> returns \<open>0\<close> whenever the replication chance is at
  most the death chance, whatever the crowding coefficient; otherwise it returns
  \<^verbatim>\<open>Math.round((replicationChance - deathChance) / crowdingCoefficient)\<close>, difference
  and quotient computed in binary64: the integer nearest to the quotient when that is
  finite, and \<open>Infinity\<close> when the crowding coefficient is \<open>0\<close> (two binary64 rates that
  differ, differ by \<open>2 ^ -1074\<close> at least). It returns a number and no state, and the
  number depends on the three rates only.
\<close>

theorem calculateCarryingCapacity_rule:
  "(replicationChance s \<le> deathChance s \<longrightarrow> calculateCarryingCapacity s = Finite 0)
   \<and> (\<not> replicationChance s \<le> deathChance s \<longrightarrow>
        calculateCarryingCapacity s =
          Math_round
            (div64 (sub64 (Finite (replicationChance s)) (Finite (deathChance s)))
               (Finite (crowdingCoefficient s))))
   \<and> (\<forall>x. \<not> replicationChance s \<le> deathChance s
        \<and> div64 (sub64 (Finite (replicationChance s)) (Finite (deathChance s)))
             (Finite (crowdingCoefficient s)) = Finite x \<longrightarrow>
        calculateCarryingCapacity s = Finite (of_int \<lfloor>x + 1 / 2\<rfloor>))
   \<and> (deathChance s + pow2 (- 1074) \<le> replicationChance s \<and> crowdingCoefficient s = 0 \<longrightarrow>
        calculateCarryingCapacity s = PosInfinity)
   \<and> (replicationChance s' = replicationChance s \<and> deathChance s' = deathChance s
        \<and> crowdingCoefficient s' = crowdingCoefficient s \<longrightarrow>
        calculateCarryingCapacity s' = calculateCarryingCapacity s)"
proof -
  have inf: "calculateCarryingCapacity s = PosInfinity"
    if a: "deathChance s + pow2 (- 1074) \<le> replicationChance s" and c: "crowdingCoefficient s = 0"
  proof -
    from a have gt: "\<not> replicationChance s \<le> deathChance s"
      using pow2_pos [of "- 1074"] by linarith
    from a have "pow2 (- 1074) \<le> replicationChance s - deathChance s" by simp
    from round64_positive [OF this]
    have "div64 (round64 (replicationChance s - deathChance s)) (Finite 0) = PosInfinity"
      by auto
    with gt c show ?thesis by (simp add: calculateCarryingCapacity_def sub64_def)
  qed
  show ?thesis
    using inf by (auto simp add: calculateCarryingCapacity_def)
qed

theorem calculateCarryingCapacity_rule_witness:
  "calculateCarryingCapacity scenarioA = Finite 50
   \<and> calculateCarryingCapacity (advanceTick scenarioA) = Finite 50
   \<and> calculateCarryingCapacity capacityRounded = Finite 2
   \<and> calculateCarryingCapacity noCrowding = PosInfinity
   \<and> replicationChance scenarioC \<le> deathChance scenarioC
   \<and> calculateCarryingCapacity scenarioC = Finite 0"
proof -
  note r = calculateCarryingCapacity_rule
  have a: "\<not> replicationChance scenarioA \<le> deathChance scenarioA
      \<and> div64 (sub64 (Finite (replicationChance scenarioA)) (Finite (deathChance scenarioA)))
          (Finite (crowdingCoefficient scenarioA)) = Finite 50"
    by (simp add: scenarioA_fields literal_values eval64)
  from r [of scenarioA, THEN conjunct2, THEN conjunct2, THEN conjunct1, rule_format, OF a]
  have 1: "calculateCarryingCapacity scenarioA = Finite 50" by simp
  have "replicationChance (advanceTick scenarioA) = replicationChance scenarioA
      \<and> deathChance (advanceTick scenarioA) = deathChance scenarioA
      \<and> crowdingCoefficient (advanceTick scenarioA) = crowdingCoefficient scenarioA"
    by simp
  from r [of scenarioA "advanceTick scenarioA", THEN conjunct2, THEN conjunct2, THEN conjunct2,
      THEN conjunct2, rule_format, OF this] 1
  have 2: "calculateCarryingCapacity (advanceTick scenarioA) = Finite 50"
    by simp
  have b: "\<not> replicationChance capacityRounded \<le> deathChance capacityRounded
      \<and> div64 (sub64 (Finite (replicationChance capacityRounded))
                 (Finite (deathChance capacityRounded)))
          (Finite (crowdingCoefficient capacityRounded)) =
        Finite (2814749767106543 / 1125899906842624)"
    by (simp add: capacityRounded_fields literal_values eval64)
  from r [of capacityRounded, THEN conjunct2, THEN conjunct2, THEN conjunct1, rule_format, OF b]
  have 3: "calculateCarryingCapacity capacityRounded = Finite 2" by simp
  have c: "deathChance noCrowding + pow2 (- 1074) \<le> replicationChance noCrowding
      \<and> crowdingCoefficient noCrowding = 0"
  proof -
    have "pow2 (- 1074) \<le> pow2 (- 10)" by (intro pow2_mono) simp
    also have "\<dots> \<le> 1 / 100" by (simp add: pow2_def)
    finally show ?thesis by (simp add: noCrowding_fields literal_values)
  qed
  from r [of noCrowding, THEN conjunct2, THEN conjunct2, THEN conjunct2, THEN conjunct1,
      rule_format, OF c]
  have 4: "calculateCarryingCapacity noCrowding = PosInfinity" .
  have 5: "replicationChance scenarioC \<le> deathChance scenarioC"
    by (simp add: scenarioC_fields literal_values)
  from r [of scenarioC, THEN conjunct1, rule_format, OF 5]
  have 6: "calculateCarryingCapacity scenarioC = Finite 0" .
  from 1 2 3 4 5 6 show ?thesis by simp
qed

text \<open>
  With no death and no crowding the population grows by half at every tick, until the
  sum overflows to \<open>Infinity\<close>; the tick after that multiplies \<open>0\<close> by \<open>Infinity\<close>.
\<close>

lemma round64_above_one:
  assumes "1 \<le> x"
  shows "round64 x = PosInfinity \<or> (round64 x = Finite (nearest64 x) \<and> 99 / 100 * x \<le> nearest64 x)"
proof -
  from nearest64_relative [OF assms] assms have "0 < nearest64 x" by linarith
  with nearest64_relative [OF assms] show ?thesis by (simp add: round64_def)
qed

lemma NaN_absorbs [simp]:
  "add64 a NaN = NaN"
  "mul64 a NaN = NaN"
  "Math_max [Finite 0, NaN] = NaN"
  by (cases a; simp add: Math_max_def max64_def)+

lemma growing_overflowing: "growing overflowing"
  by (simp add: growing_def overflowing_fields)

lemma growing_rate:
  assumes "growing s"
  shows "sub64 (sub64 (Finite (replicationChance s)) (Finite (deathChance s)))
           (mul64 (Finite (crowdingCoefficient s)) (Finite p)) = Finite (1 / 2)"
proof -
  from assms have q: "replicationChance s = 1 / 2" "deathChance s = 0" "crowdingCoefficient s = 0"
    by (simp_all add: growing_def)
  have "round64 (1 / 2) = Finite (1 / 2)" by (simp add: eval64)
  then show ?thesis unfolding q by (simp add: sub64_def)
qed

lemma growing_params: "growing s \<Longrightarrow> isRunning (advanceTick s) \<Longrightarrow> growing (advanceTick s)"
  by (simp add: growing_def)

lemma growing_tick_finite:
  assumes "growing s" and "population s = Finite p" and "1000 \<le> p"
  shows "growing (advanceTick s)
       \<and> (population (advanceTick s) = PosInfinity
          \<or> (\<exists>p'. population (advanceTick s) = Finite p' \<and> 29 / 20 * p \<le> p'))"
proof -
  from assms(1) have r: "isRunning s" by (simp add: growing_def)
  define n where "n = Math_max [Finite 0, Math_round (add64 (Finite p) (round64 (p / 2)))]"
  from advanceTick_running(1,4) [OF r] have
    pn: "population (advanceTick s) = n" and rn: "isRunning (advanceTick s) = (n \<noteq> Finite 0)"
    unfolding assms(2) growing_rate [OF assms(1)] by (simp_all add: n_def)
  have "n = PosInfinity \<or> (\<exists>p'. n = Finite p' \<and> 29 / 20 * p \<le> p')"
  proof -
    from assms(3) have "1 \<le> p / 2" by simp
    from round64_above_one [OF this] show ?thesis
    proof
      assume "round64 (p / 2) = PosInfinity"
      then show ?thesis by (simp add: n_def clamp_at_zero)
    next
      assume h: "round64 (p / 2) = Finite (nearest64 (p / 2))
          \<and> 99 / 100 * (p / 2) \<le> nearest64 (p / 2)"
      define h' where "h' = nearest64 (p / 2)"
      from h have hh: "round64 (p / 2) = Finite h'" and hl: "99 / 200 * p \<le> h'"
        by (simp_all add: h'_def)
      from hl assms(3) have "1 \<le> p + h'" by linarith
      from round64_above_one [OF this] show ?thesis
      proof
        assume "round64 (p + h') = PosInfinity"
        then show ?thesis by (simp add: n_def hh clamp_at_zero)
      next
        assume y: "round64 (p + h') = Finite (nearest64 (p + h'))
            \<and> 99 / 100 * (p + h') \<le> nearest64 (p + h')"
        define y' where "y' = nearest64 (p + h')"
        from y have yy: "round64 (p + h') = Finite y'" and yl: "99 / 100 * (p + h') \<le> y'"
          by (simp_all add: y'_def)
        have n: "n = Finite (max 0 (of_int \<lfloor>y' + 1 / 2\<rfloor>))"
          by (simp add: n_def hh yy clamp_at_zero)
        have "y' - 1 / 2 \<le> of_int \<lfloor>y' + 1 / 2\<rfloor>" by linarith
        moreover have "29 / 20 * p \<le> y' - 1 / 2"
        proof -
          from yl have a1: "99 / 100 * p + 99 / 100 * h' \<le> y'" by (simp add: algebra_simps)
          from hl have a2: "99 / 100 * (99 / 200 * p) \<le> 99 / 100 * h'"
            by (intro mult_left_mono) simp_all
          have a3: "99 / 100 * (99 / 200 * p) = 9801 / 20000 * p" by simp
          from a1 a2 a3 assms(3) show ?thesis by linarith
        qed
        ultimately have "29 / 20 * p \<le> max 0 (of_int \<lfloor>y' + 1 / 2\<rfloor>)" by linarith
        with n show ?thesis by blast
      qed
    qed
  qed
  moreover from this assms(3) have "n \<noteq> Finite 0" by auto
  ultimately show ?thesis using pn rn growing_params [OF assms(1)] by simp
qed

lemma growing_tick_huge:
  assumes "growing s" and "population s = Finite p" and "2 ^ 1024 \<le> p"
  shows "growing (advanceTick s) \<and> population (advanceTick s) = PosInfinity"
proof -
  from assms(1) have r: "isRunning s" by (simp add: growing_def)
  define n where "n = Math_max [Finite 0, Math_round (add64 (Finite p) (round64 (p / 2)))]"
  from advanceTick_running(1,4) [OF r] have
    pn: "population (advanceTick s) = n" and rn: "isRunning (advanceTick s) = (n \<noteq> Finite 0)"
    unfolding assms(2) growing_rate [OF assms(1)] by (simp_all add: n_def)
  from assms(3) have p: "0 \<le> p" by (simp add: order_trans [of 0 "2 ^ 1024" p])
  then have "0 \<le> p / 2" by simp
  from round64_nonneg [OF this] have "add64 (Finite p) (round64 (p / 2)) = PosInfinity"
  proof
    assume "round64 (p / 2) = PosInfinity"
    then show ?thesis by simp
  next
    assume "\<exists>y. 0 \<le> y \<and> round64 (p / 2) = Finite y"
    then obtain y where y: "0 \<le> y" "round64 (p / 2) = Finite y" by blast
    from assms(3) y(1) have "2 ^ 1024 \<le> p + y" by linarith
    then have "round64 (p + y) = PosInfinity" by (rule round64_overflow)
    with y(2) show ?thesis by simp
  qed
  then have "n = PosInfinity" by (simp add: n_def clamp_at_zero)
  with pn rn growing_params [OF assms(1)] show ?thesis by simp
qed

lemma growing_tick_infinite:
  assumes "growing s" and "population s = PosInfinity \<or> population s = NaN"
  shows "growing (advanceTick s) \<and> population (advanceTick s) = NaN"
proof -
  from assms(1) have r: "isRunning s" and c: "crowdingCoefficient s = 0"
    by (simp_all add: growing_def)
  from assms(2) have "mul64 (Finite (crowdingCoefficient s)) (population s) = NaN"
    by (auto simp add: c)
  with advanceTick_running(1,4) [OF r] have
    "population (advanceTick s) = NaN" "isRunning (advanceTick s)"
    by (simp_all add: sub64_def Math_max_def max64_def)
  with growing_params [OF assms(1)] show ?thesis by simp
qed

lemma growing_invariant:
  "growing ((advanceTick ^^ n) overflowing)
   \<and> (population ((advanceTick ^^ n) overflowing) = NaN
      \<or> population ((advanceTick ^^ n) overflowing) = PosInfinity
      \<or> (\<exists>p. population ((advanceTick ^^ n) overflowing) = Finite p
             \<and> 1000 * (29 / 20) ^ n \<le> p))"
proof (induction n)
  case 0
  show ?case by (simp add: growing_overflowing overflowing_fields)
next
  case (Suc n)
  let ?s = "(advanceTick ^^ n) overflowing"
  from Suc have g: "growing ?s" by simp
  from Suc consider "population ?s = PosInfinity \<or> population ?s = NaN"
    | p where "population ?s = Finite p" "1000 * (29 / 20) ^ n \<le> p"
    by blast
  then show ?case
  proof cases
    case 1
    from growing_tick_infinite [OF g 1] show ?thesis by simp
  next
    case 2
    have "(1::real) \<le> (29 / 20) ^ n" by (rule one_le_power) simp
    with 2(2) have "1000 \<le> p" by linarith
    from growing_tick_finite [OF g 2(1) this] have g': "growing (advanceTick ?s)"
      and c: "population (advanceTick ?s) = PosInfinity
          \<or> (\<exists>p'. population (advanceTick ?s) = Finite p' \<and> 29 / 20 * p \<le> p')"
      by blast+
    have "1000 * (29 / 20) ^ Suc n = 29 / 20 * (1000 * (29 / 20 :: real) ^ n)" by simp
    also have "\<dots> \<le> 29 / 20 * p" using 2(2) by (intro mult_left_mono) simp_all
    finally have "29 / 20 * p \<le> p' \<Longrightarrow> 1000 * (29 / 20) ^ Suc n \<le> p'" for p'
      by linarith
    with c have "population (advanceTick ?s) = PosInfinity
          \<or> (\<exists>p'. population (advanceTick ?s) = Finite p' \<and> 1000 * (29 / 20) ^ Suc n \<le> p')"
      by blast
    with g' show ?thesis by (simp only: funpow.simps o_apply) blast
  qed
qed

lemma growth_exceeds_range: "(2::real) ^ 1024 \<le> 1000 * (29 / 20) ^ (2 * 1015)"
proof -
  have "(2::real) ^ 1015 \<le> ((29 / 20)\<^sup>2) ^ 1015"
    by (rule power_mono) (simp_all add: power2_eq_square)
  also have "\<dots> = (29 / 20) ^ (2 * 1015)" by (rule power_mult [symmetric])
  finally have "2 ^ 9 * (2::real) ^ 1015 \<le> 1000 * (29 / 20) ^ (2 * 1015)"
    by (intro mult_mono) simp_all
  moreover have "(2::real) ^ 1024 = 2 ^ 9 * 2 ^ 1015"
    using power_add [of "2::real" 9 1015] by simp
  ultimately show ?thesis by (simp only:)
qed

lemma overflow_reached:
  "growing ((advanceTick ^^ (2 * 1015 + 1)) overflowing)
   \<and> (population ((advanceTick ^^ (2 * 1015 + 1)) overflowing) = PosInfinity
      \<or> population ((advanceTick ^^ (2 * 1015 + 1)) overflowing) = NaN)"
proof -
  let ?s = "(advanceTick ^^ (2 * 1015)) overflowing"
  have e: "(advanceTick ^^ (2 * 1015 + 1)) overflowing = advanceTick ?s"
    by (simp only: funpow.simps o_apply add_Suc_right Suc_eq_plus1 [symmetric] add_0_right)
  from growing_invariant [of "2 * 1015"] have g: "growing ?s" by (rule conjunct1)
  from growing_invariant [of "2 * 1015"] consider
    "population ?s = PosInfinity \<or> population ?s = NaN"
    | p where "population ?s = Finite p" "1000 * (29 / 20) ^ (2 * 1015) \<le> p"
    by blast
  then show ?thesis
  proof cases
    case 1
    from growing_tick_infinite [OF g 1] show ?thesis unfolding e by simp
  next
    case 2
    from 2(2) growth_exceeds_range have "2 ^ 1024 \<le> p" by (rule order_trans [rotated])
    from growing_tick_huge [OF g 2(1) this] show ?thesis unfolding e by simp
  qed
qed

lemma overflow_NaN:
  "growing ((advanceTick ^^ 2032) overflowing)"
  "population ((advanceTick ^^ 2032) overflowing) = NaN"
proof -
  let ?s = "(advanceTick ^^ (2 * 1015 + 1)) overflowing"
  have "(2032::nat) = Suc (2 * 1015 + 1)" by simp
  then have e: "(advanceTick ^^ 2032) overflowing = advanceTick ?s"
    by (simp only: funpow.simps o_apply)
  from overflow_reached have g: "growing ?s"
    and p: "population ?s = PosInfinity \<or> population ?s = NaN" by blast+
  from growing_tick_infinite [OF g p]
  show "growing ((advanceTick ^^ 2032) overflowing)"
    "population ((advanceTick ^^ 2032) overflowing) = NaN"
    unfolding e by simp_all
qed

text \<open>
  C5, as stated, fails: after the sliders are set to starting population \<open>1000\<close>,
  replication chance \<open>0.5\<close>, death chance \<open>0\<close> and crowding coefficient \<open>0\<close> and the
  simulation has run for 2032 ticks, the population is NaN, which is not at least \<open>0\<close>,
  and the simulation still runs.
\<close>

theorem population_becomes_NaN:
  "\<not> le64 (Finite 0)
       (population
          (run ([StartingPopulationChange 1000, ReplicationChanceChange (1 / 2),
                 DeathChanceChange 0, CrowdingCoefficientChange 0, StartPauseClick]
                @ replicate 2032 IntervalTick) mounted))
   \<and> population
        (run ([StartingPopulationChange 1000, ReplicationChanceChange (1 / 2),
               DeathChanceChange 0, CrowdingCoefficientChange 0, StartPauseClick]
              @ replicate 2032 IntervalTick) mounted) = NaN
   \<and> isRunning
        (run ([StartingPopulationChange 1000, ReplicationChanceChange (1 / 2),
               DeathChanceChange 0, CrowdingCoefficientChange 0, StartPauseClick]
              @ replicate 2032 IntervalTick) mounted)"
proof -
  have "run ([StartingPopulationChange 1000, ReplicationChanceChange (1 / 2),
               DeathChanceChange 0, CrowdingCoefficientChange 0, StartPauseClick]
              @ replicate 2032 IntervalTick) mounted = (advanceTick ^^ 2032) overflowing"
    by (simp only: run_append run_ticks overflowing_def)
  with overflow_NaN show ?thesis by (simp add: growing_def)
qed

text \<open>
  The invariant holds on the first render and after every sequence of events that
  follows the mount.
\<close>

lemma consistent_reachable:
  "s = initialState \<or> s = run evs mounted \<Longrightarrow> consistent s"
  using consistent_initialState consistent_run [OF consistent_mounted] by blast

text \<open>
  C5, amended. In the state of the first render and in every state that a sequence of
  events reaches after the mount, the data are not empty, the point at index \<open>i\<close> has the
  time \<open>i\<close>, the point at index \<open>0\<close> has the delta \<open>0\<close>, and neither the population nor
  the population of any point is less than \<open>0\<close>: each is a number that is at least \<open>0\<close>,
  or \<open>Infinity\<close> or NaN once the recurrence has overflowed.
\<close>

theorem history_invariant:
  assumes "s = initialState \<or> s = run evs mounted"
  shows "data s \<noteq> []
       \<and> (\<forall>i < length (data s). dp_time (data s ! i) = real i)
       \<and> \<not> less64 (population s) (Finite 0)
       \<and> (\<forall>i < length (data s). \<not> less64 (dp_population (data s ! i)) (Finite 0))
       \<and> dp_delta (data s ! 0) = Finite 0"
proof -
  from assms have c: "consistent s" by (rule consistent_reachable)
  then have ne: "data s \<noteq> []" by (simp add: consistent_def)
  have t: "dp_time (data s ! i) = real i" if "i < length (data s)" for i
  proof -
    from c have "map dp_time (data s) ! i = map real [0..<length (data s)] ! i"
      by (simp add: consistent_def)
    with that show ?thesis by simp
  qed
  from c have "list_all (\<lambda>p. \<not> less64 (dp_population p) (Finite 0)) (data s)"
    by (simp add: consistent_def)
  then have p: "\<forall>i < length (data s). \<not> less64 (dp_population (data s ! i)) (Finite 0)"
    by (simp add: list_all_length)
  from c ne have "dp_delta (data s ! 0) = Finite 0"
    by (simp add: consistent_def hd_conv_nth)
  moreover from c have "\<not> less64 (population s) (Finite 0)" by (simp add: consistent_def)
  ultimately show ?thesis using ne t p by blast
qed

theorem history_invariant_witness:
  "data (advanceTick scenarioA) \<noteq> []
   \<and> length (data (advanceTick scenarioA)) = 2
   \<and> dp_time (data (advanceTick scenarioA) ! 0) = 0
   \<and> dp_time (data (advanceTick scenarioA) ! 1) = 1
   \<and> \<not> less64 (population (advanceTick scenarioA)) (Finite 0)
   \<and> \<not> less64 (dp_population (data (advanceTick scenarioA) ! 0)) (Finite 0)
   \<and> \<not> less64 (dp_population (data (advanceTick scenarioA) ! 1)) (Finite 0)
   \<and> dp_delta (data (advanceTick scenarioA) ! 0) = Finite 0"
proof -
  have e: "advanceTick scenarioA = run [StartPauseClick, IntervalTick] mounted"
    by (simp add: scenarioA_def run_def)
  have l: "length (data (advanceTick scenarioA)) = 2"
    by (simp add: scenarioA_tick1)
  from e have "advanceTick scenarioA = initialState
      \<or> advanceTick scenarioA = run [StartPauseClick, IntervalTick] mounted"
    by blast
  from history_invariant [OF this] l show ?thesis
    by simp
qed

text \<open>A tick that gives the population \<open>0\<close> pauses the simulation.\<close>

lemma advanceTick_zero_pauses:
  "population (advanceTick s) = Finite 0 \<Longrightarrow> \<not> isRunning (advanceTick s)"
  by (cases "isRunning s") (simp_all add: advanceTick_running advanceTick_paused)

text \<open>
  C6. A tick of a running state that gives the population \<open>0\<close> leaves the simulation
  paused, and any number of further ticks leaves that state as it is; a tick of a paused
  state changes nothing, so population, time and data stay.
\<close>

theorem extinction_pauses:
  "(isRunning s \<and> population (advanceTick s) = Finite 0 \<longrightarrow>
      \<not> isRunning (advanceTick s)
      \<and> (\<forall>n. (advanceTick ^^ n) (advanceTick s) = advanceTick s))
   \<and> (\<not> isRunning s \<longrightarrow>
      advanceTick s = s
      \<and> population (advanceTick s) = population s
      \<and> time (advanceTick s) = time s
      \<and> data (advanceTick s) = data s)"
proof (intro conjI impI)
  assume a: "isRunning s \<and> population (advanceTick s) = Finite 0"
  then show p: "\<not> isRunning (advanceTick s)"
    by (simp add: advanceTick_zero_pauses)
  show "\<forall>n. (advanceTick ^^ n) (advanceTick s) = advanceTick s"
    using advanceTick_paused_funpow [OF p] by blast
qed (simp_all add: advanceTick_paused)

theorem extinction_pauses_witness:
  "isRunning nearExtinction
   \<and> population (advanceTick nearExtinction) = Finite 0
   \<and> \<not> isRunning (advanceTick nearExtinction)
   \<and> (advanceTick ^^ 3) (advanceTick nearExtinction) = advanceTick nearExtinction
   \<and> advanceTick (advanceTick nearExtinction) = advanceTick nearExtinction
   \<and> time (advanceTick (advanceTick nearExtinction)) = 4"
proof -
  have a: "isRunning nearExtinction \<and> population (advanceTick nearExtinction) = Finite 0"
    by (simp add: nearExtinction_fields nearExtinction_tick)
  with extinction_pauses [of nearExtinction]
  have p: "\<not> isRunning (advanceTick nearExtinction)"
    and f: "\<forall>n. (advanceTick ^^ n) (advanceTick nearExtinction) = advanceTick nearExtinction"
    by blast+
  from p extinction_pauses [of "advanceTick nearExtinction"]
  have n: "advanceTick (advanceTick nearExtinction) = advanceTick nearExtinction"
    by blast
  from a p f n show ?thesis by (simp add: nearExtinction_tick)
qed

text \<open>
  C7. While the simulation runs, a click on Reset leaves time, population and data as
  they are and raises the warning \<^verbatim>\<open>showResetWarning\<close>; nothing else changes.
\<close>

theorem reset_while_running_rejected:
  assumes "isRunning s"
  shows "time (handleResetClick s) = time s
       \<and> population (handleResetClick s) = population s
       \<and> data (handleResetClick s) = data s
       \<and> showResetWarning (handleResetClick s)
       \<and> handleResetClick s = s\<lparr>showResetWarning := True\<rparr>"
  using assms by (simp add: handleResetClick_def)

theorem reset_while_running_rejected_witness:
  "isRunning (advanceTick scenarioA)
   \<and> \<not> showResetWarning (advanceTick scenarioA)
   \<and> time (handleResetClick (advanceTick scenarioA)) = 1
   \<and> population (handleResetClick (advanceTick scenarioA)) = Finite 95
   \<and> data (handleResetClick (advanceTick scenarioA)) =
       [\<lparr>dp_time = 0, dp_population = Finite 100, dp_delta = Finite 0\<rparr>,
        \<lparr>dp_time = 1, dp_population = Finite 95, dp_delta = Finite (- 5)\<rparr>]
   \<and> showResetWarning (handleResetClick (advanceTick scenarioA))"
proof -
  have r: "isRunning (advanceTick scenarioA)" by (simp add: scenarioA_tick1)
  have w: "\<not> showResetWarning (advanceTick scenarioA)"
    by (simp add: scenarioA_fields)
  from reset_while_running_rejected [OF r] r w show ?thesis
    by (simp add: scenarioA_tick1)
qed

text \<open>
  C8. While the simulation is paused, a second click on Reset gives the state the first
  one gave: time \<open>0\<close>, the population \<^verbatim>\<open>startingPopulation\<close>, and the one point
  \<open>(0, startingPopulation, 0)\<close> as data.
\<close>

theorem reset_idempotent:
  assumes "\<not> isRunning s"
  shows "handleResetClick (handleResetClick s) = handleResetClick s
       \<and> time (handleResetClick s) = 0
       \<and> population (handleResetClick s) = Finite (startingPopulation s)
       \<and> data (handleResetClick s) =
           [\<lparr>dp_time = 0, dp_population = Finite (startingPopulation s), dp_delta = Finite 0\<rparr>]
       \<and> time (handleResetClick (handleResetClick s)) = 0
       \<and> population (handleResetClick (handleResetClick s)) = Finite (startingPopulation s)
       \<and> data (handleResetClick (handleResetClick s)) =
           [\<lparr>dp_time = 0, dp_population = Finite (startingPopulation s), dp_delta = Finite 0\<rparr>]"
  using assms by (simp add: handleResetClick_def resetSimulation_idem)

theorem reset_idempotent_witness:
  "\<not> isRunning (advanceTick nearExtinction)
   \<and> time (advanceTick nearExtinction) = 4
   \<and> handleResetClick (handleResetClick (advanceTick nearExtinction)) =
       handleResetClick (advanceTick nearExtinction)
   \<and> time (handleResetClick (advanceTick nearExtinction)) = 0
   \<and> population (handleResetClick (advanceTick nearExtinction)) = Finite 10
   \<and> data (handleResetClick (advanceTick nearExtinction)) =
       [\<lparr>dp_time = 0, dp_population = Finite 10, dp_delta = Finite 0\<rparr>]"
proof -
  have p: "\<not> isRunning (advanceTick nearExtinction)"
    by (simp add: nearExtinction_tick)
  from reset_idempotent [OF p] p show ?thesis
    by (simp add: nearExtinction_tick nearExtinction_fields)
qed

text \<open>
  C10. In the state of the first render and in every state that a sequence of events
  reaches after the mount, the data have \<open>time + 1\<close> points.
\<close>

theorem history_length_is_time_plus_one:
  assumes "s = initialState \<or> s = run evs mounted"
  shows "real (length (data s)) = time s + 1"
  using consistent_reachable [OF assms] by (simp add: consistent_def)

theorem history_length_is_time_plus_one_witness:
  "real (length (data (advanceTick (advanceTick scenarioA)))) = 3
   \<and> time (advanceTick (advanceTick scenarioA)) = 2"
proof -
  have "advanceTick (advanceTick scenarioA) = run [StartPauseClick, IntervalTick, IntervalTick] mounted"
    by (simp add: scenarioA_def run_def)
  then have "advanceTick (advanceTick scenarioA) = initialState
      \<or> advanceTick (advanceTick scenarioA) = run [StartPauseClick, IntervalTick, IntervalTick] mounted"
    by blast
  from history_length_is_time_plus_one [OF this] show ?thesis
    by (simp add: scenarioA_tick2(2))
qed

text \<open>
  A tick at population \<open>0\<close>, and any event that does not reset, keep the population at
  \<open>0\<close> and append only points with population \<open>0\<close> and delta \<open>0\<close>, as long as the
  difference of the two rates is finite.
\<close>

lemma pow2_1023_double: "pow2 1023 = pow2 1022 + pow2 1022"
  using pow2_add [of 1022 1] by (simp add: pow2_def [of 1])

lemma moderate_difference:
  assumes "moderateRates s"
  shows "sub64 (Finite (replicationChance s)) (Finite (deathChance s)) =
           Finite (nearest64 (replicationChance s - deathChance s))"
    and "\<bar>nearest64 (replicationChance s - deathChance s)\<bar> \<le> pow2 1023"
proof -
  from assms have b: "\<bar>replicationChance s - deathChance s\<bar> \<le> pow2 1023"
    unfolding moderateRates_def pow2_1023_double by linarith
  then show "sub64 (Finite (replicationChance s)) (Finite (deathChance s)) =
           Finite (nearest64 (replicationChance s - deathChance s))"
    by (simp add: sub64_def round64_finite)
  from b show "\<bar>nearest64 (replicationChance s - deathChance s)\<bar> \<le> pow2 1023"
    by (intro nearest64_abs_upper) simp_all
qed

lemma zero_tick:
  assumes "population s = Finite 0" and "isRunning s" and "moderateRates s"
  shows "population (advanceTick s) = Finite 0"
    and "data (advanceTick s) =
           data s @ [\<lparr>dp_time = time s + 1, dp_population = Finite 0, dp_delta = Finite 0\<rparr>]"
    and "\<not> isRunning (advanceTick s)"
proof -
  define g where "g = nearest64 (replicationChance s - deathChance s)"
  from moderate_difference [OF assms(3)] have
    d: "sub64 (Finite (replicationChance s)) (Finite (deathChance s)) = Finite g"
    and b: "\<bar>g\<bar> \<le> pow2 1023" by (simp_all add: g_def)
  from b have g: "sub64 (Finite g) (Finite 0) = Finite (nearest64 g)"
    by (simp add: sub64_def round64_finite)
  have n: "Math_max [Finite 0, Math_round (add64 (population s)
      (mul64 (sub64 (sub64 (Finite (replicationChance s)) (Finite (deathChance s)))
                (mul64 (Finite (crowdingCoefficient s)) (population s)))
         (population s)))] = Finite 0"
    unfolding assms(1) d by (simp add: g clamp_at_zero)
  from advanceTick_running [OF assms(2)] show "population (advanceTick s) = Finite 0"
    "data (advanceTick s) =
       data s @ [\<lparr>dp_time = time s + 1, dp_population = Finite 0, dp_delta = Finite 0\<rparr>]"
    "\<not> isRunning (advanceTick s)"
    unfolding n by (simp_all add: assms(1) sub64_def)
qed

lemma slider_moderate:
  assumes "0 \<le> v" and "v \<le> 1 / 2"
  shows "\<bar>nearest64 v\<bar> \<le> pow2 1022"
proof -
  from assms have "\<bar>v\<bar> \<le> pow2 0" by simp
  then have "\<bar>nearest64 v\<bar> \<le> pow2 0" by (intro nearest64_abs_upper) simp_all
  moreover have "pow2 0 \<le> pow2 1022" by (intro pow2_mono) simp
  ultimately show ?thesis by linarith
qed

lemma zero_handle:
  assumes "population s = Finite 0" and "\<not> isReset e" and "moderateRates s"
  shows "population (handle e s) = Finite 0 \<and> moderateRates (handle e s)
       \<and> (\<exists>zs. data (handle e s) = data s @ zs
              \<and> list_all (\<lambda>p. dp_population p = Finite 0 \<and> dp_delta p = Finite 0) zs)"
proof (cases e)
  case IntervalTick
  have m: "moderateRates (advanceTick s)"
    using assms(3) by (simp add: moderateRates_def)
  show ?thesis
  proof (cases "isRunning s")
    case True
    with assms IntervalTick m show ?thesis by (simp add: zero_tick)
  next
    case False
    with assms IntervalTick show ?thesis by (simp add: advanceTick_paused)
  qed
next
  case (ReplicationChanceChange v)
  with assms show ?thesis
    by (auto simp add: moderateRates_def rangeInput_def intro: slider_moderate)
next
  case (DeathChanceChange v)
  with assms show ?thesis
    by (auto simp add: moderateRates_def rangeInput_def intro: slider_moderate)
qed (use assms in \<open>simp_all add: setIsRunning_def hideResetWarning_def moderateRates_def\<close>)

lemma zero_run:
  assumes "population s = Finite 0" and "list_all (\<lambda>e. \<not> isReset e) evs"
    and "moderateRates s"
  shows "population (run evs s) = Finite 0
       \<and> (\<exists>zs. data (run evs s) = data s @ zs
              \<and> list_all (\<lambda>p. dp_population p = Finite 0 \<and> dp_delta p = Finite 0) zs)"
  using assms
proof (induction evs arbitrary: s)
  case Nil
  then show ?case by (simp add: run_def)
next
  case (Cons e evs)
  from Cons.prems have h: "population (handle e s) = Finite 0"
    and m: "moderateRates (handle e s)"
    and d: "\<exists>zs. data (handle e s) = data s @ zs
          \<and> list_all (\<lambda>p. dp_population p = Finite 0 \<and> dp_delta p = Finite 0) zs"
    using zero_handle [of s e] by simp_all
  from Cons.prems have "list_all (\<lambda>e. \<not> isReset e) evs" by simp
  from Cons.IH [OF h this m] have p: "population (run evs (handle e s)) = Finite 0" and
    d': "\<exists>zs. data (run evs (handle e s)) = data (handle e s) @ zs
          \<and> list_all (\<lambda>p. dp_population p = Finite 0 \<and> dp_delta p = Finite 0) zs"
    by simp_all
  from d obtain zs where zs: "data (handle e s) = data s @ zs"
    "list_all (\<lambda>p. dp_population p = Finite 0 \<and> dp_delta p = Finite 0) zs" by blast
  from d' obtain zs' where zs': "data (run evs (handle e s)) = data (handle e s) @ zs'"
    "list_all (\<lambda>p. dp_population p = Finite 0 \<and> dp_delta p = Finite 0) zs'" by blast
  have r: "run (e # evs) s = run evs (handle e s)" by (simp add: run_def)
  from zs zs' have "data (run (e # evs) s) = data s @ (zs @ zs')
      \<and> list_all (\<lambda>p. dp_population p = Finite 0 \<and> dp_delta p = Finite 0) (zs @ zs')"
    by (simp add: r)
  with p r show ?case by metis
qed

text \<open>
  Rates that no slider delivers can make the difference of the rates infinite, and then
  a tick at population \<open>0\<close> gives NaN: \<open>Infinity * 0\<close>.
\<close>

lemma hugeRates_leave_zero:
  "population hugeRates = Finite 0"
  "isRunning hugeRates"
  "population (advanceTick hugeRates) = NaN"
proof -
  show p: "population hugeRates = Finite 0" and r: "isRunning hugeRates"
    by (simp_all add: hugeRates_def scenarioA_fields)
  have "round64 (2 ^ 1023 + 2 ^ 1023) = PosInfinity"
    by (rule round64_overflow) simp
  then have "sub64 (Finite (replicationChance hugeRates)) (Finite (deathChance hugeRates)) =
      PosInfinity"
    by (simp add: hugeRates_def sub64_def)
  with advanceTick_running(1) [OF r] show "population (advanceTick hugeRates) = NaN"
    by (simp add: p sub64_def Math_max_def max64_def)
qed

text \<open>
  C9. At population \<open>0\<close>, whatever rates the sliders have set (any rates of magnitude
  \<open>2 ^ 1022\<close> at most), a tick of the restarted simulation gives the population \<open>0\<close> and
  appends a point with population \<open>0\<close> and delta \<open>0\<close>; and after any sequence of events
  without a reset (ticks, restarts, changes of the rates) the population is still \<open>0\<close>
  and every point appended has population \<open>0\<close> and delta \<open>0\<close>.
\<close>

theorem zero_is_fixed_point:
  assumes "population s = Finite 0" and "moderateRates s"
  shows "(isRunning s \<longrightarrow>
            population (advanceTick s) = Finite 0
            \<and> data (advanceTick s) =
                data s @ [\<lparr>dp_time = time s + 1, dp_population = Finite 0,
                           dp_delta = Finite 0\<rparr>])
       \<and> (list_all (\<lambda>e. \<not> isReset e) evs \<longrightarrow>
            population (run evs s) = Finite 0
            \<and> (\<exists>zs. data (run evs s) = data s @ zs
                   \<and> list_all (\<lambda>p. dp_population p = Finite 0 \<and> dp_delta p = Finite 0) zs))"
  using zero_tick(1,2) [OF assms(1) _ assms(2)] zero_run [OF assms(1) _ assms(2)] by blast

theorem zero_is_fixed_point_witness:
  "population (advanceTick nearExtinction) = Finite 0
   \<and> moderateRates (advanceTick nearExtinction)
   \<and> isRunning (setIsRunning True (advanceTick nearExtinction))
   \<and> population (advanceTick (setIsRunning True (advanceTick nearExtinction))) = Finite 0
   \<and> dp_delta (last (data (advanceTick (setIsRunning True (advanceTick nearExtinction))))) =
       Finite 0
   \<and> list_all (\<lambda>e. \<not> isReset e)
        [StartPauseClick, IntervalTick, ReplicationChanceChange (1 / 2), StartPauseClick,
         IntervalTick]
   \<and> population
        (run [StartPauseClick, IntervalTick, ReplicationChanceChange (1 / 2), StartPauseClick,
              IntervalTick] (advanceTick nearExtinction)) = Finite 0"
proof -
  let ?s = "advanceTick nearExtinction"
  let ?evs = "[StartPauseClick, IntervalTick, ReplicationChanceChange (1 / 2), StartPauseClick,
               IntervalTick]"
  have z: "population ?s = Finite 0" by (simp add: nearExtinction_tick)
  have "(1::real) \<le> pow2 1022" using pow2_mono [of 0 1022] by simp
  then have m: "moderateRates ?s"
    by (simp add: moderateRates_def nearExtinction_fields)
  have z': "population (setIsRunning True ?s) = Finite 0" by (simp add: setIsRunning_def z)
  from m have m': "moderateRates (setIsRunning True ?s)"
    by (simp add: moderateRates_def setIsRunning_def)
  have r: "isRunning (setIsRunning True ?s)" by (simp add: setIsRunning_def)
  have l: "list_all (\<lambda>e. \<not> isReset e) ?evs" by simp
  from zero_is_fixed_point [OF z' m', of ?evs] r
  have 1: "population (advanceTick (setIsRunning True ?s)) = Finite 0"
    and 2: "data (advanceTick (setIsRunning True ?s)) =
       data (setIsRunning True ?s) @
         [\<lparr>dp_time = time (setIsRunning True ?s) + 1, dp_population = Finite 0,
           dp_delta = Finite 0\<rparr>]"
    by blast+
  from zero_is_fixed_point [OF z m, of ?evs] l
  have 3: "population (run ?evs ?s) = Finite 0" by blast
  from 2 have 4: "dp_delta (last (data (advanceTick (setIsRunning True ?s)))) = Finite 0"
    by simp
  from z m r 1 4 l 3 show ?thesis by blast
qed

end
